theory Spec2Isabelle
  imports Main
begin

section \<open>Errors\<close>

text \<open>
  Go's \<^verbatim>\<open>error\<close> values that pkg/k8sutils handles. An error coming from a cluster
  client is \<open>APIStatusError reason message\<close> (a status error of the API machinery, with
  its status reason) or \<open>OtherError message\<close>. The remaining constructors are the
  errors that k8sutils.go builds with \<^verbatim>\<open>fmt.Errorf\<close>, each carrying the arguments of
  its format string, and the timeout error of the wait package.
\<close>

type_synonym labels = "string \<rightharpoonup> string"

datatype error =
    APIStatusError string string
  | OtherError string
  | ErrNoPVCs labels
  | ErrPVCPending string string string
  | ErrNameConflict string
  | ErrWaitTimeout

text \<open>
  The message of an error (Go's \<^verbatim>\<open>err.Error()\<close>). \<open>fmtMap\<close> renders a label map the
  way the verb \<^verbatim>\<open>%v\<close> does.
\<close>

fun Error :: "(labels \<Rightarrow> string) \<Rightarrow> error \<Rightarrow> string" where
  "Error fmtMap (APIStatusError r m) = m"
| "Error fmtMap (OtherError m) = m"
| "Error fmtMap (ErrNoPVCs matchLabels) =
     ''found no PVCs for group snapshot with given label selectors: '' @ fmtMap matchLabels"
| "Error fmtMap (ErrPVCPending ns n ph) =
     ''PVC: ['' @ ns @ ''] '' @ n @ '' is still in '' @ ph @
     '' phase. Group snapshot will trigger after all PVCs are bound''"
| "Error fmtMap (ErrNameConflict r) = ''name conflict: '' @ r"
| "Error fmtMap ErrWaitTimeout = ''timed out waiting for the condition''"

definition StatusReasonNotFound :: string where
  "StatusReasonNotFound = ''NotFound''"

text \<open>
  \<^verbatim>\<open>errors.IsNotFound(err)\<close> of the API machinery, on a non-nil error: it holds for
  a status error whose reason is NotFound.
\<close>

fun IsNotFound :: "error \<Rightarrow> bool" where
  "IsNotFound (APIStatusError r m) = (r = StatusReasonNotFound)"
| "IsNotFound _ = False"

text \<open>A run-time panic of Go: an index \<open>i\<close> read in a slice of length \<open>n \<le> i\<close>.\<close>

datatype panic = IndexOutOfRange nat nat


section \<open>Persistent volume claims for a group snapshot\<close>

text \<open>
  \<^verbatim>\<open>v1.PersistentVolumeClaimPhase\<close> is a string type; the three phases that the
  API defines are the constants below.
\<close>

type_synonym PersistentVolumeClaimPhase = string

definition ClaimPending :: PersistentVolumeClaimPhase where
  "ClaimPending = ''Pending''"

definition ClaimBound :: PersistentVolumeClaimPhase where
  "ClaimBound = ''Bound''"

definition ClaimLost :: PersistentVolumeClaimPhase where
  "ClaimLost = ''Lost''"

text \<open>
  A \<^verbatim>\<open>v1.PersistentVolumeClaim\<close>: the fields that the package reads, and the name of
  the volume it is bound to.
\<close>

record PersistentVolumeClaim =
  Namespace :: string
  Name :: string
  Phase :: PersistentVolumeClaimPhase
  VolumeName :: string

text \<open>
  The two calls on \<^verbatim>\<open>core.Instance()\<close> that the resolver makes. They belong to
  the cluster client, so they are parameters of the model.
\<close>

record core_Ops =
  GetPersistentVolumeClaims :: "string \<Rightarrow> labels \<Rightarrow> error + PersistentVolumeClaim list"
  GetVolumeForPersistentVolumeClaim :: "PersistentVolumeClaim \<Rightarrow> error + string"

text \<open>
  The loop of lines 44 to 49: the first claim in the Pending phase ends the scan with
  an error that names it.
\<close>

fun checkNoPending :: "PersistentVolumeClaim list \<Rightarrow> error option" where
  "checkNoPending [] = None"
| "checkNoPending (pvc # rest) =
     (if Phase pvc = ClaimPending
      then Some (ErrPVCPending (Namespace pvc) (Name pvc) (Phase pvc))
      else checkNoPending rest)"

definition GetPVCsForGroupSnapshot ::
  "core_Ops \<Rightarrow> string \<Rightarrow> labels \<Rightarrow> error + PersistentVolumeClaim list" where
  "GetPVCsForGroupSnapshot core namespace matchLabels =
     (case GetPersistentVolumeClaims core namespace matchLabels of
        Inl err \<Rightarrow> Inl err
      | Inr items \<Rightarrow>
          if length items = 0 then Inl (ErrNoPVCs matchLabels)
          else (case checkNoPending items of
                  Some err \<Rightarrow> Inl err
                | None \<Rightarrow> Inr items))"

text \<open>
  The loop of lines 63 to 70, with \<open>volNames\<close> the slice built so far: the first lookup
  that fails ends the loop with its error.
\<close>

fun appendVolumeNames ::
  "core_Ops \<Rightarrow> string list \<Rightarrow> PersistentVolumeClaim list \<Rightarrow> error + string list" where
  "appendVolumeNames core volNames [] = Inr volNames"
| "appendVolumeNames core volNames (pvc # rest) =
     (case GetVolumeForPersistentVolumeClaim core pvc of
        Inl err \<Rightarrow> Inl err
      | Inr volName \<Rightarrow> appendVolumeNames core (volNames @ [volName]) rest)"

definition GetVolumeNamesFromLabelSelector ::
  "core_Ops \<Rightarrow> string \<Rightarrow> labels \<Rightarrow> error + string list" where
  "GetVolumeNamesFromLabelSelector core namespace lbls =
     (case GetPVCsForGroupSnapshot core namespace lbls of
        Inl err \<Rightarrow> Inl err
      | Inr pvcs \<Rightarrow> appendVolumeNames core [] pvcs)"


section \<open>Waiting for a custom resource definition\<close>

text \<open>
  \<^verbatim>\<open>time.Duration\<close> counts nanoseconds; the two constants of lines 22 and 23.
\<close>

type_synonym Duration = int

definition Second :: Duration where
  "Second = 1000000000"

definition Minute :: Duration where
  "Minute = 60 * Second"

definition crdTimeout :: Duration where
  "crdTimeout = 1 * Minute"

definition retryInterval :: Duration where
  "retryInterval = 5 * Second"

text \<open>
  A status condition of a custom resource definition, once for each of the two API
  versions. In both, the type and the status of a condition are string types, with the
  constants below.
\<close>

record v1beta1_Condition =
  v1beta1_Type :: string
  v1beta1_Status :: string
  v1beta1_Reason :: string

record v1_Condition =
  v1_Type :: string
  v1_Status :: string
  v1_Reason :: string

definition v1beta1_Established :: string where
  "v1beta1_Established = ''Established''"

definition v1beta1_NamesAccepted :: string where
  "v1beta1_NamesAccepted = ''NamesAccepted''"

definition v1beta1_ConditionTrue :: string where
  "v1beta1_ConditionTrue = ''True''"

definition v1beta1_ConditionFalse :: string where
  "v1beta1_ConditionFalse = ''False''"

definition v1_Established :: string where
  "v1_Established = ''Established''"

definition v1_NamesAccepted :: string where
  "v1_NamesAccepted = ''NamesAccepted''"

definition v1_ConditionTrue :: string where
  "v1_ConditionTrue = ''True''"

definition v1_ConditionFalse :: string where
  "v1_ConditionFalse = ''False''"

text \<open>
  The result of one call of the condition function handed to the poller, Go's pair
  \<^verbatim>\<open>(bool, error)\<close>: done or not, and the error if there is one.
\<close>

type_synonym poll_result = "bool \<times> error option"

text \<open>
  The loop of lines 84 to 95 over \<^verbatim>\<open>crd.Status.Conditions\<close>, with line 96 when the
  loop ends: the conditions are read in order, and the first one that makes a case of
  the \<^verbatim>\<open>switch\<close> return decides.
\<close>

fun scanConditions_v1beta1 :: "v1beta1_Condition list \<Rightarrow> poll_result" where
  "scanConditions_v1beta1 [] = (False, None)"
| "scanConditions_v1beta1 (cond # rest) =
     (if v1beta1_Type cond = v1beta1_Established then
        (if v1beta1_Status cond = v1beta1_ConditionTrue then (True, None)
         else scanConditions_v1beta1 rest)
      else if v1beta1_Type cond = v1beta1_NamesAccepted then
        (if v1beta1_Status cond = v1beta1_ConditionFalse
         then (False, Some (ErrNameConflict (v1beta1_Reason cond)))
         else scanConditions_v1beta1 rest)
      else scanConditions_v1beta1 rest)"

text \<open>The same loop in \<^verbatim>\<open>ValidateCRDV1\<close>, lines 109 to 121.\<close>

fun scanConditions_v1 :: "v1_Condition list \<Rightarrow> poll_result" where
  "scanConditions_v1 [] = (False, None)"
| "scanConditions_v1 (cond # rest) =
     (if v1_Type cond = v1_Established then
        (if v1_Status cond = v1_ConditionTrue then (True, None)
         else scanConditions_v1 rest)
      else if v1_Type cond = v1_NamesAccepted then
        (if v1_Status cond = v1_ConditionFalse
         then (False, Some (ErrNameConflict (v1_Reason cond)))
         else scanConditions_v1 rest)
      else scanConditions_v1 rest)"

text \<open>
  The condition function of \<^verbatim>\<open>ValidateCRD\<close> (lines 78 to 96), applied to what the
  \<^verbatim>\<open>Get\<close> call of this poll returned: an error, or the definition with its status
  conditions.
\<close>

definition pollCRD_v1beta1 :: "error + v1beta1_Condition list \<Rightarrow> poll_result" where
  "pollCRD_v1beta1 got =
     (case got of
        Inl err \<Rightarrow> if IsNotFound err then (False, None) else (False, Some err)
      | Inr conditions \<Rightarrow> scanConditions_v1beta1 conditions)"

text \<open>The condition function of \<^verbatim>\<open>ValidateCRDV1\<close> (lines 103 to 121).\<close>

definition pollCRD_v1 :: "error + v1_Condition list \<Rightarrow> poll_result" where
  "pollCRD_v1 got =
     (case got of
        Inl err \<Rightarrow> if IsNotFound err then (False, None) else (False, Some err)
      | Inr conditions \<Rightarrow> scanConditions_v1 conditions)"

text \<open>
  Modelled from the spec: the polling loop of \<^verbatim>\<open>wait.PollImmediate\<close>, which belongs
  to the API machinery library and is not part of the package's source. The spec (4.2)
  has the waiter poll at a fixed interval up to a fixed timeout and fail with a timeout
  error if the timeout elapses while the state is still pending. Time is a counter of
  nanoseconds here, and the condition function is given the time that has passed since
  the start when it is called, each call an interval after the one before. An error of
  the condition function ends the wait with that error, \<^verbatim>\<open>true\<close> ends it with
  success, and a call that would come after the timeout is not made: the wait ends with
  \<open>ErrWaitTimeout\<close>. The package passes \<open>retryInterval\<close> only; with an interval that is
  not positive no ticker exists, and the model polls no more.
\<close>

function pollFrom ::
  "Duration \<Rightarrow> Duration \<Rightarrow> (Duration \<Rightarrow> poll_result) \<Rightarrow> Duration \<Rightarrow> error option" where
  "pollFrom interval timeout condition elapsed =
     (if 0 < interval \<and> elapsed \<le> timeout then
        (case condition elapsed of
           (_, Some err) \<Rightarrow> Some err
         | (True, None) \<Rightarrow> None
         | (False, None) \<Rightarrow> pollFrom interval timeout condition (elapsed + interval))
      else Some ErrWaitTimeout)"
  by pat_completeness auto
termination
  by (relation "measure (\<lambda>(interval, timeout, condition, elapsed). nat (timeout + 1 - elapsed))")
    auto

text \<open>
  Modelled from the spec: \<^verbatim>\<open>wait.PollImmediate\<close> itself, absent from the source
  like its loop. The condition function is called at once, at time zero, whatever the
  interval and the timeout are; while it is pending the loop above goes on, one
  interval later.
\<close>

definition PollImmediate ::
  "Duration \<Rightarrow> Duration \<Rightarrow> (Duration \<Rightarrow> poll_result) \<Rightarrow> error option" where
  "PollImmediate interval timeout condition =
     (case condition 0 of
        (_, Some err) \<Rightarrow> Some err
      | (True, None) \<Rightarrow> None
      | (False, None) \<Rightarrow> pollFrom interval timeout condition interval)"

text \<open>
  The client of one API version: \<open>Get t crdName\<close> is what a call of
  \<^verbatim>\<open>CustomResourceDefinitions().Get\<close> made at time \<open>t\<close> returns for that name, the
  status conditions of the definition or an error. The cluster changes while the waiter
  sleeps, so the answer depends on \<open>t\<close>.
\<close>

type_synonym 'c crd_Getter = "Duration \<Rightarrow> string \<Rightarrow> error + 'c list"

definition ValidateCRD :: "v1beta1_Condition crd_Getter \<Rightarrow> string \<Rightarrow> error option" where
  "ValidateCRD client crdName =
     PollImmediate retryInterval crdTimeout (\<lambda>t. pollCRD_v1beta1 (client t crdName))"

definition ValidateCRDV1 :: "v1_Condition crd_Getter \<Rightarrow> string \<Rightarrow> error option" where
  "ValidateCRDV1 client crdName =
     PollImmediate retryInterval crdTimeout (\<lambda>t. pollCRD_v1 (client t crdName))"


section \<open>Creating a custom resource definition\<close>

text \<open>
  The resource descriptor \<^verbatim>\<open>apiextensions.CustomResource\<close>, with the fields that
  \<^verbatim>\<open>CreateCRD\<close> reads. Its scope is a string type.
\<close>

record CustomResource =
  cr_Name :: string
  cr_ShortNames :: "string list"
  cr_Plural :: string
  cr_Group :: string
  cr_Version :: string
  cr_Scope :: string
  cr_Kind :: string

definition NamespaceScoped :: string where
  "NamespaceScoped = ''Namespaced''"

definition ClusterScoped :: string where
  "ClusterScoped = ''Cluster''"

text \<open>
  The \<^verbatim>\<open>apiextensionsv1\<close> object that \<^verbatim>\<open>CreateCRD\<close> fills in; a pointer is an option.
\<close>

record JSONSchemaProps =
  XPreserveUnknownFields :: "bool option"

record CustomResourceValidation =
  OpenAPIV3Schema :: "JSONSchemaProps option"

record CustomResourceDefinitionVersion =
  ver_Name :: string
  ver_Served :: bool
  ver_Storage :: bool
  ver_Schema :: "CustomResourceValidation option"

record CustomResourceDefinitionNames =
  names_Singular :: string
  names_Plural :: string
  names_Kind :: string
  names_ShortNames :: "string list"

record CustomResourceDefinitionSpec =
  spec_Group :: string
  spec_Versions :: "CustomResourceDefinitionVersion list"
  spec_Scope :: string
  spec_Names :: CustomResourceDefinitionNames

record CustomResourceDefinition =
  ObjectMeta_Name :: string
  Spec :: CustomResourceDefinitionSpec

text \<open>Lines 127 to 158: the object built from the descriptor.\<close>

definition newCRD :: "CustomResource \<Rightarrow> CustomResourceDefinition" where
  "newCRD resource =
     (let scope = (if cr_Scope resource = ClusterScoped then ClusterScoped
                   else NamespaceScoped);
          ignoreSchemaValidation = True;
          crdName = cr_Plural resource @ ''.'' @ cr_Group resource
      in \<lparr>ObjectMeta_Name = crdName,
          Spec = \<lparr>spec_Group = cr_Group resource,
                   spec_Versions =
                     [\<lparr>ver_Name = cr_Version resource,
                       ver_Served = True,
                       ver_Storage = True,
                       ver_Schema = Some \<lparr>OpenAPIV3Schema =
                         Some \<lparr>XPreserveUnknownFields = Some ignoreSchemaValidation\<rparr>\<rparr>\<rparr>],
                   spec_Scope = scope,
                   spec_Names = \<lparr>names_Singular = cr_Name resource,
                                 names_Plural = cr_Plural resource,
                                 names_Kind = cr_Kind resource,
                                 names_ShortNames = cr_ShortNames resource\<rparr>\<rparr>\<rparr>)"

text \<open>
  Lines 159 to 163. \<open>RegisterCRD\<close> is the call on \<^verbatim>\<open>apiextensions.Instance()\<close>, a
  parameter of the model: it is given the object and answers with an error or none.
\<close>

definition CreateCRD ::
  "(CustomResourceDefinition \<Rightarrow> error option) \<Rightarrow> CustomResource \<Rightarrow> error option" where
  "CreateCRD RegisterCRD resource =
     (case RegisterCRD (newCRD resource) of
        Some err \<Rightarrow> Some err
      | None \<Rightarrow> None)"


section \<open>The image registry of a deployment\<close>

text \<open>
  \<^verbatim>\<open>strings.Split(s, sep)\<close> for a separator of one byte: the text before the first
  separator, then the split of what follows it; a text without separator is one field.
\<close>

function Split :: "string \<Rightarrow> char \<Rightarrow> string list" where
  "Split s sep =
     (case dropWhile (\<lambda>c. c \<noteq> sep) s of
        [] \<Rightarrow> [s]
      | _ # rest \<Rightarrow> takeWhile (\<lambda>c. c \<noteq> sep) s # Split rest sep)"
  by pat_completeness auto
termination
proof (relation "measure (\<lambda>(s, sep). length s)")
  show "wf (measure (\<lambda>(s, sep). length s))"
    by simp
next
  fix s :: string and sep :: char and x rest
  assume "dropWhile (\<lambda>c. c \<noteq> sep) s = x # rest"
  then have "length (x # rest) \<le> length s"
    using length_dropWhile_le [of "\<lambda>c. c \<noteq> sep" s] by simp
  then show "((rest, sep), (s, sep)) \<in> measure (\<lambda>(s, sep). length s)"
    by simp
qed

text \<open>
  The fields of an \<^verbatim>\<open>appsv1.Deployment\<close> that the function reads, all under
  \<^verbatim>\<open>Spec.Template.Spec\<close>: the images of the containers, and the names of the image
  pull secrets, a slice that may be nil (\<open>None\<close>).
\<close>

record Deployment =
  Containers_Image :: "string list"
  ImagePullSecrets_Name :: "string list option"

text \<open>
  \<open>GetDeployment\<close> is the call on \<^verbatim>\<open>apps.Instance()\<close>, a parameter of the model. The
  function returns Go's triple \<^verbatim>\<open>(string, string, error)\<close>, or panics where it reads
  index 0 of an empty slice (lines 172 and 183).
\<close>

definition GetImageRegistryFromDeployment ::
  "(string \<Rightarrow> string \<Rightarrow> error + Deployment) \<Rightarrow> string \<Rightarrow> string \<Rightarrow>
     panic + (string \<times> string \<times> error option)" where
  "GetImageRegistryFromDeployment GetDeployment name namespace =
     (case GetDeployment name namespace of
        Inl err \<Rightarrow> Inr ('''', '''', Some err)
      | Inr deploy \<Rightarrow>
          (case Containers_Image deploy of
             [] \<Rightarrow> Inl (IndexOutOfRange 0 0)
           | img # _ \<Rightarrow>
               (let imageFields = Split img CHR ''/'';
                    registry = (if length imageFields = 3 then imageFields ! 0 else '''');
                    imageSecret = ImagePullSecrets_Name deploy
                in case imageSecret of
                     Some [] \<Rightarrow> Inl (IndexOutOfRange 0 0)
                   | Some (secretName # _) \<Rightarrow> Inr (registry, secretName, None)
                   | None \<Rightarrow> Inr (registry, '''', None))))"

section \<open>Example inputs\<close>

text \<open>
  The example of the spec (8): namespace \<open>ns1\<close>, selector \<open>app = data\<close>, with the claims
  \<open>pvc-a\<close> and \<open>pvc-b\<close> bound to \<open>vol-a\<close> and \<open>vol-b\<close>; and two more claims, one
  pending and one that lost its volume.
\<close>

definition pvc_a :: PersistentVolumeClaim where
  "pvc_a = \<lparr>Namespace = ''ns1'', Name = ''pvc-a'', Phase = ClaimBound, VolumeName = ''vol-a''\<rparr>"

definition pvc_b :: PersistentVolumeClaim where
  "pvc_b = \<lparr>Namespace = ''ns1'', Name = ''pvc-b'', Phase = ClaimBound, VolumeName = ''vol-b''\<rparr>"

definition pvc_c :: PersistentVolumeClaim where
  "pvc_c = \<lparr>Namespace = ''ns1'', Name = ''pvc-c'', Phase = ClaimPending, VolumeName = ''''\<rparr>"

definition pvc_d :: PersistentVolumeClaim where
  "pvc_d = \<lparr>Namespace = ''ns1'', Name = ''pvc-d'', Phase = ClaimLost, VolumeName = ''vol-d''\<rparr>"

text \<open>
  A cluster client that lists \<open>items\<close> for that namespace and selector and nothing for
  any other, and that resolves a claim to the volume it names.
\<close>

definition cluster :: "PersistentVolumeClaim list \<Rightarrow> core_Ops" where
  "cluster items =
     \<lparr>GetPersistentVolumeClaims =
        (\<lambda>namespace lbls.
           if namespace = ''ns1'' \<and> lbls ''app'' = Some ''data'' then Inr items else Inr []),
      GetVolumeForPersistentVolumeClaim =
        (\<lambda>pvc. if VolumeName pvc = '''' then Inl (OtherError ''PVC is not bound'')
               else Inr (VolumeName pvc))\<rparr>"

definition selector :: labels where
  "selector = [''app'' \<mapsto> ''data'']"


text \<open>
  Status conditions of a custom resource definition, in both API versions: the names
  are accepted, the definition is being installed, it is established, and a name
  conflict.
\<close>

definition namesAccepted_v1beta1 :: v1beta1_Condition where
  "namesAccepted_v1beta1 = \<lparr>v1beta1_Type = ''NamesAccepted'', v1beta1_Status = ''True'',
     v1beta1_Reason = ''NoConflicts''\<rparr>"

definition installing_v1beta1 :: v1beta1_Condition where
  "installing_v1beta1 = \<lparr>v1beta1_Type = ''Established'', v1beta1_Status = ''False'',
     v1beta1_Reason = ''Installing''\<rparr>"

definition established_v1beta1 :: v1beta1_Condition where
  "established_v1beta1 = \<lparr>v1beta1_Type = ''Established'', v1beta1_Status = ''True'',
     v1beta1_Reason = ''InitialNamesAccepted''\<rparr>"

definition conflict_v1beta1 :: v1beta1_Condition where
  "conflict_v1beta1 = \<lparr>v1beta1_Type = ''NamesAccepted'', v1beta1_Status = ''False'',
     v1beta1_Reason = ''PluralConflict''\<rparr>"

definition namesAccepted_v1 :: v1_Condition where
  "namesAccepted_v1 = \<lparr>v1_Type = ''NamesAccepted'', v1_Status = ''True'',
     v1_Reason = ''NoConflicts''\<rparr>"

definition installing_v1 :: v1_Condition where
  "installing_v1 = \<lparr>v1_Type = ''Established'', v1_Status = ''False'',
     v1_Reason = ''Installing''\<rparr>"

definition established_v1 :: v1_Condition where
  "established_v1 = \<lparr>v1_Type = ''Established'', v1_Status = ''True'',
     v1_Reason = ''InitialNamesAccepted''\<rparr>"

definition conflict_v1 :: v1_Condition where
  "conflict_v1 = \<lparr>v1_Type = ''NamesAccepted'', v1_Status = ''False'',
     v1_Reason = ''PluralConflict''\<rparr>"

definition notFound :: error where
  "notFound = APIStatusError ''NotFound'' ''customresourcedefinitions not found''"

text \<open>
  Clusters as the waiter sees them. In \<open>appearing\<close> the definition is not visible during
  the first five seconds, is being installed during the next five, and is established
  from then on. In \<open>absent\<close> it never appears. In \<open>conflicting\<close> the answer lists a name
  conflict and, after it, an Established condition that is true. In \<open>ready\<close> it is
  established from the start. \<open>between_polls\<close> answers like \<open>appearing\<close> at the multiples
  of five seconds and refuses the connection at every other time.
\<close>

definition appearing_v1beta1 :: "v1beta1_Condition crd_Getter" where
  "appearing_v1beta1 t crdName =
     (if t < 5 * Second then Inl notFound
      else if t < 10 * Second then Inr [namesAccepted_v1beta1, installing_v1beta1]
      else Inr [namesAccepted_v1beta1, established_v1beta1])"

definition appearing_v1 :: "v1_Condition crd_Getter" where
  "appearing_v1 t crdName =
     (if t < 5 * Second then Inl notFound
      else if t < 10 * Second then Inr [namesAccepted_v1, installing_v1]
      else Inr [namesAccepted_v1, established_v1])"

definition absent_v1beta1 :: "v1beta1_Condition crd_Getter" where
  "absent_v1beta1 t crdName = Inl notFound"

definition absent_v1 :: "v1_Condition crd_Getter" where
  "absent_v1 t crdName = Inl notFound"

definition conflicting_v1beta1 :: "v1beta1_Condition crd_Getter" where
  "conflicting_v1beta1 t crdName = Inr [conflict_v1beta1, established_v1beta1]"

definition conflicting_v1 :: "v1_Condition crd_Getter" where
  "conflicting_v1 t crdName = Inr [conflict_v1, established_v1]"

definition ready_v1beta1 :: "v1beta1_Condition crd_Getter" where
  "ready_v1beta1 t crdName = Inr [namesAccepted_v1beta1, established_v1beta1]"

definition ready_v1 :: "v1_Condition crd_Getter" where
  "ready_v1 t crdName = Inr [namesAccepted_v1, established_v1]"

definition between_polls_v1beta1 :: "v1beta1_Condition crd_Getter" where
  "between_polls_v1beta1 t crdName =
     (if t mod (5 * Second) = 0 then appearing_v1beta1 t crdName
      else Inl (OtherError ''connection refused''))"

definition between_polls_v1 :: "v1_Condition crd_Getter" where
  "between_polls_v1 t crdName =
     (if t mod (5 * Second) = 0 then appearing_v1 t crdName
      else Inl (OtherError ''connection refused''))"

text \<open>
  Three more clusters. In \<open>at_last\<close> the definition is not visible before the sixtieth
  second and is established from then on; in \<open>too_late\<close> that happens one second later.
  In \<open>briefly_conflicting\<close> a name conflict shows from the fifth second up to the tenth,
  and the definition is not found at any other time.
\<close>

definition at_last_v1beta1 :: "v1beta1_Condition crd_Getter" where
  "at_last_v1beta1 t crdName =
     (if t < 60 * Second then Inl notFound
      else Inr [namesAccepted_v1beta1, established_v1beta1])"

definition at_last_v1 :: "v1_Condition crd_Getter" where
  "at_last_v1 t crdName =
     (if t < 60 * Second then Inl notFound else Inr [namesAccepted_v1, established_v1])"

definition too_late_v1beta1 :: "v1beta1_Condition crd_Getter" where
  "too_late_v1beta1 t crdName =
     (if t < 61 * Second then Inl notFound
      else Inr [namesAccepted_v1beta1, established_v1beta1])"

definition too_late_v1 :: "v1_Condition crd_Getter" where
  "too_late_v1 t crdName =
     (if t < 61 * Second then Inl notFound else Inr [namesAccepted_v1, established_v1])"

definition briefly_conflicting_v1beta1 :: "v1beta1_Condition crd_Getter" where
  "briefly_conflicting_v1beta1 t crdName =
     (if 5 * Second \<le> t \<and> t < 10 * Second then Inr [conflict_v1beta1] else Inl notFound)"

definition briefly_conflicting_v1 :: "v1_Condition crd_Getter" where
  "briefly_conflicting_v1 t crdName =
     (if 5 * Second \<le> t \<and> t < 10 * Second then Inr [conflict_v1] else Inl notFound)"

text \<open>Two resource descriptors, one namespaced and one cluster-wide.\<close>

definition volumeSnapshotSchedule :: CustomResource where
  "volumeSnapshotSchedule =
     \<lparr>cr_Name = ''volumesnapshotschedule'', cr_ShortNames = [''vss''],
      cr_Plural = ''volumesnapshotschedules'', cr_Group = ''stork.libopenstorage.org'',
      cr_Version = ''v1alpha1'', cr_Scope = ''Namespaced'',
      cr_Kind = ''VolumeSnapshotSchedule''\<rparr>"

definition clusterDomainsStatus :: CustomResource where
  "clusterDomainsStatus =
     \<lparr>cr_Name = ''clusterdomainsstatus'', cr_ShortNames = [''cds''],
      cr_Plural = ''clusterdomainsstatuses'', cr_Group = ''stork.libopenstorage.org'',
      cr_Version = ''v1alpha1'', cr_Scope = ''Cluster'', cr_Kind = ''ClusterDomainsStatus''\<rparr>"

text \<open>
  Deployments: an image with a registry and a pull secret; an image without registry
  and a nil list of pull secrets; a list of pull secrets that is empty but not nil; and
  no container at all. \<open>deployments deploy\<close> is a client that knows \<open>deploy\<close> as the
  deployment \<open>stork\<close> of the namespace \<open>kube-system\<close>.
\<close>

definition stork_deploy :: Deployment where
  "stork_deploy = \<lparr>Containers_Image = [''registry.example.com/openstorage/stork:2.6.0''],
     ImagePullSecrets_Name = Some [''regcred'']\<rparr>"

definition hub_deploy :: Deployment where
  "hub_deploy = \<lparr>Containers_Image = [''openstorage/stork:2.6.0'', ''busybox''],
     ImagePullSecrets_Name = None\<rparr>"

definition no_secrets_deploy :: Deployment where
  "no_secrets_deploy =
     \<lparr>Containers_Image = [''registry.example.com/openstorage/stork:2.6.0''],
      ImagePullSecrets_Name = Some []\<rparr>"

definition no_containers_deploy :: Deployment where
  "no_containers_deploy =
     \<lparr>Containers_Image = [], ImagePullSecrets_Name = Some [''regcred'']\<rparr>"

definition deployments :: "Deployment \<Rightarrow> string \<Rightarrow> string \<Rightarrow> error + Deployment" where
  "deployments deploy name namespace =
     (if name = ''stork'' \<and> namespace = ''kube-system'' then Inr deploy
      else Inl (APIStatusError ''NotFound'' ''deployment not found''))"


section \<open>Comparing the two API versions\<close>

text \<open>
  The type, status and reason of a condition, in either version, and when two answers
  of the \<^verbatim>\<open>Get\<close> calls of the two versions say the same: the same error, or
  conditions with the same triples in the same order.
\<close>

definition triple_v1beta1 :: "v1beta1_Condition \<Rightarrow> string \<times> string \<times> string" where
  "triple_v1beta1 c = (v1beta1_Type c, v1beta1_Status c, v1beta1_Reason c)"

definition triple_v1 :: "v1_Condition \<Rightarrow> string \<times> string \<times> string" where
  "triple_v1 c = (v1_Type c, v1_Status c, v1_Reason c)"

fun same_answer ::
  "error + v1_Condition list \<Rightarrow> error + v1beta1_Condition list \<Rightarrow> bool" where
  "same_answer (Inl err1) (Inl err) = (err1 = err)"
| "same_answer (Inr conds1) (Inr conds) = (map triple_v1 conds1 = map triple_v1beta1 conds)"
| "same_answer _ _ = False"


section \<open>Simplification setup\<close>

declare pollFrom.simps [simp del]

declare Split.simps [simp del]

lemmas crd_consts =
  v1beta1_Established_def v1beta1_NamesAccepted_def v1beta1_ConditionTrue_def
  v1beta1_ConditionFalse_def v1_Established_def v1_NamesAccepted_def v1_ConditionTrue_def
  v1_ConditionFalse_def

lemmas crd_examples =
  namesAccepted_v1beta1_def installing_v1beta1_def established_v1beta1_def
  conflict_v1beta1_def namesAccepted_v1_def installing_v1_def established_v1_def
  conflict_v1_def notFound_def StatusReasonNotFound_def

lemmas crd_clients =
  appearing_v1beta1_def appearing_v1_def absent_v1beta1_def absent_v1_def
  conflicting_v1beta1_def conflicting_v1_def ready_v1beta1_def ready_v1_def
  between_polls_v1beta1_def between_polls_v1_def at_last_v1beta1_def at_last_v1_def
  too_late_v1beta1_def too_late_v1_def briefly_conflicting_v1beta1_def
  briefly_conflicting_v1_def

lemmas deploy_examples =
  stork_deploy_def hub_deploy_def no_secrets_deploy_def no_containers_deploy_def
  deployments_def


section \<open>Properties of the group snapshot resolver\<close>

lemma checkNoPending_None_iff:
  "checkNoPending items = None \<longleftrightarrow> (\<forall>pvc \<in> set items. Phase pvc \<noteq> ClaimPending)"
  by (induction items) auto

lemma checkNoPending_find:
  "checkNoPending items =
     map_option (\<lambda>pvc. ErrPVCPending (Namespace pvc) (Name pvc) (Phase pvc))
       (find (\<lambda>pvc. Phase pvc = ClaimPending) items)"
  by (induction items) auto

lemma find_pending_Some:
  assumes "pvc \<in> set items" and "Phase pvc = ClaimPending"
  obtains p where "find (\<lambda>q. Phase q = ClaimPending) items = Some p"
    and "p \<in> set items" and "Phase p = ClaimPending"
proof -
  have "find (\<lambda>q. Phase q = ClaimPending) items \<noteq> None"
    using assms by (auto simp: find_None_iff)
  then obtain p where p: "find (\<lambda>q. Phase q = ClaimPending) items = Some p"
    by auto
  then have "p \<in> set items" and "Phase p = ClaimPending"
    by (auto simp: find_Some_iff)
  with p that show thesis
    by blast
qed

lemma appendVolumeNames_all_found:
  assumes "\<forall>pvc \<in> set pvcs. \<exists>v. GetVolumeForPersistentVolumeClaim core pvc = Inr v"
  shows "\<exists>vols. appendVolumeNames core volNames pvcs = Inr (volNames @ vols)
            \<and> length vols = length pvcs
            \<and> (\<forall>i < length pvcs.
                  GetVolumeForPersistentVolumeClaim core (pvcs ! i) = Inr (vols ! i))"
  using assms
proof (induction pvcs arbitrary: volNames)
  case Nil
  then show ?case by simp
next
  case (Cons pvc rest)
  from Cons.prems obtain v where v: "GetVolumeForPersistentVolumeClaim core pvc = Inr v"
    by auto
  from Cons.prems have "\<forall>p \<in> set rest. \<exists>v. GetVolumeForPersistentVolumeClaim core p = Inr v"
    by simp
  from Cons.IH [OF this, of "volNames @ [v]"] obtain vols where
    r: "appendVolumeNames core (volNames @ [v]) rest = Inr ((volNames @ [v]) @ vols)"
    and l: "length vols = length rest"
    and n: "\<forall>i < length rest. GetVolumeForPersistentVolumeClaim core (rest ! i) = Inr (vols ! i)"
    by blast
  have "appendVolumeNames core volNames (pvc # rest) = Inr (volNames @ (v # vols))"
    using v r by simp
  moreover have "length (v # vols) = length (pvc # rest)"
    using l by simp
  moreover have "\<forall>i < length (pvc # rest).
      GetVolumeForPersistentVolumeClaim core ((pvc # rest) ! i) = Inr ((v # vols) ! i)"
    using v n by (auto simp: nth_Cons split: nat.splits)
  ultimately show ?case by blast
qed

text \<open>
  Claim C2. When the listing for a namespace and a label selector succeeds with a list
  of claims that is not empty and has no claim in the Pending phase, and the volume
  lookup succeeds for each of them, \<open>GetVolumeNamesFromLabelSelector\<close> returns a list of
  volume names as long as the list of claims, whose entry number \<open>i\<close> is the volume that
  the lookup gives for claim number \<open>i\<close>.
\<close>

theorem volume_names_in_order:
  assumes "GetPersistentVolumeClaims core namespace lbls = Inr items"
    and "items \<noteq> []"
    and "\<forall>pvc \<in> set items. Phase pvc \<noteq> ClaimPending"
    and "\<forall>pvc \<in> set items. \<exists>v. GetVolumeForPersistentVolumeClaim core pvc = Inr v"
  shows "\<exists>vols. GetVolumeNamesFromLabelSelector core namespace lbls = Inr vols
            \<and> length vols = length items
            \<and> (\<forall>i < length items.
                  GetVolumeForPersistentVolumeClaim core (items ! i) = Inr (vols ! i))"
proof -
  have "checkNoPending items = None"
    using assms(3) by (simp add: checkNoPending_None_iff)
  then have "GetPVCsForGroupSnapshot core namespace lbls = Inr items"
    using assms(1,2) by (simp add: GetPVCsForGroupSnapshot_def)
  then have "GetVolumeNamesFromLabelSelector core namespace lbls =
      appendVolumeNames core [] items"
    by (simp add: GetVolumeNamesFromLabelSelector_def)
  then show ?thesis
    using appendVolumeNames_all_found [OF assms(4), of "[]"] by simp
qed

theorem volume_names_in_order_witness:
  "GetPersistentVolumeClaims (cluster [pvc_a, pvc_b]) ''ns1'' selector = Inr [pvc_a, pvc_b]
   \<and> [pvc_a, pvc_b] \<noteq> []
   \<and> Phase pvc_a \<noteq> ClaimPending \<and> Phase pvc_b \<noteq> ClaimPending
   \<and> GetVolumeForPersistentVolumeClaim (cluster [pvc_a, pvc_b]) pvc_a = Inr ''vol-a''
   \<and> GetVolumeForPersistentVolumeClaim (cluster [pvc_a, pvc_b]) pvc_b = Inr ''vol-b''
   \<and> GetVolumeNamesFromLabelSelector (cluster [pvc_a, pvc_b]) ''ns1'' selector =
       Inr [''vol-a'', ''vol-b'']"
proof -
  let ?core = "cluster [pvc_a, pvc_b]"
  have h1: "GetPersistentVolumeClaims ?core ''ns1'' selector = Inr [pvc_a, pvc_b]"
    by (simp add: cluster_def selector_def)
  have h2: "[pvc_a, pvc_b] \<noteq> []"
    by simp
  have h3: "\<forall>pvc \<in> set [pvc_a, pvc_b]. Phase pvc \<noteq> ClaimPending"
    by (simp add: pvc_a_def pvc_b_def ClaimBound_def ClaimPending_def)
  have va: "GetVolumeForPersistentVolumeClaim ?core pvc_a = Inr ''vol-a''"
    by (simp add: cluster_def pvc_a_def)
  have vb: "GetVolumeForPersistentVolumeClaim ?core pvc_b = Inr ''vol-b''"
    by (simp add: cluster_def pvc_b_def)
  have h4: "\<forall>pvc \<in> set [pvc_a, pvc_b].
      \<exists>v. GetVolumeForPersistentVolumeClaim ?core pvc = Inr v"
    using va vb by simp
  from volume_names_in_order [OF h1 h2 h3 h4] obtain vols where
    r: "GetVolumeNamesFromLabelSelector ?core ''ns1'' selector = Inr vols"
    and l: "length vols = length [pvc_a, pvc_b]"
    and n: "\<forall>i < length [pvc_a, pvc_b].
        GetVolumeForPersistentVolumeClaim ?core ([pvc_a, pvc_b] ! i) = Inr (vols ! i)"
    by blast
  from n have "GetVolumeForPersistentVolumeClaim ?core pvc_a = Inr (vols ! 0)"
    and "GetVolumeForPersistentVolumeClaim ?core pvc_b = Inr (vols ! 1)"
    by auto
  with va vb have "vols ! 0 = ''vol-a''" and "vols ! 1 = ''vol-b''"
    by simp_all
  moreover from l have "vols = [vols ! 0, vols ! 1]"
    by (cases vols; cases "tl vols"; simp)
  ultimately have "vols = [''vol-a'', ''vol-b'']"
    by simp
  with r h1 h2 h3 va vb show ?thesis
    by simp
qed

text \<open>
  Claim C3. When the listing succeeds with a list that has a claim in the Pending
  phase, \<open>GetPVCsForGroupSnapshot\<close> and \<open>GetVolumeNamesFromLabelSelector\<close> both fail,
  whatever the other claims are, with the error that carries the namespace, the name
  and the phase of a pending claim of the list (the first one in list order), and
  whose message spells these three out; no claim and no volume name is returned.
\<close>

theorem pending_claim_fails:
  assumes "GetPersistentVolumeClaims core namespace lbls = Inr items"
    and "pvc \<in> set items"
    and "Phase pvc = ClaimPending"
  shows "\<exists>p \<in> set items. Phase p = ClaimPending
           \<and> find (\<lambda>q. Phase q = ClaimPending) items = Some p
           \<and> GetPVCsForGroupSnapshot core namespace lbls =
               Inl (ErrPVCPending (Namespace p) (Name p) (Phase p))
           \<and> GetVolumeNamesFromLabelSelector core namespace lbls =
               Inl (ErrPVCPending (Namespace p) (Name p) (Phase p))
           \<and> Error fmtMap (ErrPVCPending (Namespace p) (Name p) (Phase p)) =
               ''PVC: ['' @ Namespace p @ ''] '' @ Name p @ '' is still in '' @ ''Pending'' @
               '' phase. Group snapshot will trigger after all PVCs are bound''"
proof -
  from assms(2,3) obtain p where f: "find (\<lambda>q. Phase q = ClaimPending) items = Some p"
    and p: "p \<in> set items" "Phase p = ClaimPending"
    by (rule find_pending_Some)
  let ?err = "ErrPVCPending (Namespace p) (Name p) (Phase p)"
  have c: "checkNoPending items = Some ?err"
    using f by (simp add: checkNoPending_find)
  have "items \<noteq> []"
    using assms(2) by auto
  then have g: "GetPVCsForGroupSnapshot core namespace lbls = Inl ?err"
    using assms(1) c by (simp add: GetPVCsForGroupSnapshot_def)
  then have v: "GetVolumeNamesFromLabelSelector core namespace lbls = Inl ?err"
    by (simp add: GetVolumeNamesFromLabelSelector_def)
  have "Error fmtMap ?err =
      ''PVC: ['' @ Namespace p @ ''] '' @ Name p @ '' is still in '' @ ''Pending'' @
      '' phase. Group snapshot will trigger after all PVCs are bound''"
    using p(2) by (simp add: ClaimPending_def)
  with f p g v show ?thesis
    by blast
qed

theorem pending_claim_fails_witness:
  "GetPersistentVolumeClaims (cluster [pvc_a, pvc_c, pvc_b]) ''ns1'' selector =
     Inr [pvc_a, pvc_c, pvc_b]
   \<and> pvc_c \<in> set [pvc_a, pvc_c, pvc_b]
   \<and> Phase pvc_c = ClaimPending
   \<and> GetPVCsForGroupSnapshot (cluster [pvc_a, pvc_c, pvc_b]) ''ns1'' selector =
       Inl (ErrPVCPending ''ns1'' ''pvc-c'' ''Pending'')
   \<and> GetVolumeNamesFromLabelSelector (cluster [pvc_a, pvc_c, pvc_b]) ''ns1'' selector =
       Inl (ErrPVCPending ''ns1'' ''pvc-c'' ''Pending'')"
proof -
  let ?items = "[pvc_a, pvc_c, pvc_b]"
  have h1: "GetPersistentVolumeClaims (cluster ?items) ''ns1'' selector = Inr ?items"
    by (simp add: cluster_def selector_def)
  have h2: "pvc_c \<in> set ?items"
    by simp
  have h3: "Phase pvc_c = ClaimPending"
    by (simp add: pvc_c_def)
  have f: "find (\<lambda>q. Phase q = ClaimPending) ?items = Some pvc_c"
    by (simp add: pvc_a_def pvc_b_def pvc_c_def ClaimBound_def ClaimPending_def)
  from pending_claim_fails [OF h1 h2 h3, of "\<lambda>m. ''''"] f
  have "GetPVCsForGroupSnapshot (cluster ?items) ''ns1'' selector =
        Inl (ErrPVCPending (Namespace pvc_c) (Name pvc_c) (Phase pvc_c))
      \<and> GetVolumeNamesFromLabelSelector (cluster ?items) ''ns1'' selector =
        Inl (ErrPVCPending (Namespace pvc_c) (Name pvc_c) (Phase pvc_c))"
    by auto
  then show ?thesis
    using h1 h2 h3 by (simp add: pvc_c_def ClaimPending_def)
qed

text \<open>
  Claim C4. When the listing for a namespace and a label selector succeeds and matches
  no claim, \<open>GetPVCsForGroupSnapshot\<close> and \<open>GetVolumeNamesFromLabelSelector\<close> both return
  the error that no claims were found for the selector, and no list.
\<close>

theorem no_candidates_fails:
  assumes "GetPersistentVolumeClaims core namespace lbls = Inr []"
  shows "GetPVCsForGroupSnapshot core namespace lbls = Inl (ErrNoPVCs lbls)
       \<and> GetVolumeNamesFromLabelSelector core namespace lbls = Inl (ErrNoPVCs lbls)"
  using assms by (simp add: GetPVCsForGroupSnapshot_def GetVolumeNamesFromLabelSelector_def)

theorem no_candidates_fails_witness:
  "GetPersistentVolumeClaims (cluster [pvc_a]) ''ns2'' selector = Inr []
   \<and> GetPVCsForGroupSnapshot (cluster [pvc_a]) ''ns2'' selector = Inl (ErrNoPVCs selector)
   \<and> GetVolumeNamesFromLabelSelector (cluster [pvc_a]) ''ns2'' selector =
       Inl (ErrNoPVCs selector)"
proof -
  have h: "GetPersistentVolumeClaims (cluster [pvc_a]) ''ns2'' selector = Inr []"
    by (simp add: cluster_def)
  show ?thesis
    using h no_candidates_fails [OF h] by simp
qed

text \<open>
  Claim C5. The documentation of \<open>GetPVCsForGroupSnapshot\<close> says that all claims need to
  be bound, but the scan only looks for the Pending phase: a listing whose only claim
  is in the Lost phase is returned as it is.
\<close>

theorem lost_claim_is_returned:
  "GetPVCsForGroupSnapshot (cluster [pvc_d]) ''ns1'' selector = Inr [pvc_d]
   \<and> Phase pvc_d = ''Lost''
   \<and> Phase pvc_d \<noteq> ClaimBound"
  by (simp add: GetPVCsForGroupSnapshot_def cluster_def selector_def pvc_d_def
      ClaimLost_def ClaimBound_def ClaimPending_def)

section \<open>Properties of the poller\<close>

lemma pollFrom_after_timeout:
  "timeout < elapsed \<Longrightarrow> pollFrom interval timeout condition elapsed = Some ErrWaitTimeout"
  by (subst pollFrom.simps) simp

lemma pollFrom_pending:
  "0 < interval \<Longrightarrow> elapsed \<le> timeout \<Longrightarrow> condition elapsed = (False, None) \<Longrightarrow>
   pollFrom interval timeout condition elapsed =
     pollFrom interval timeout condition (elapsed + interval)"
  by (subst pollFrom.simps) simp

lemma pollFrom_decided:
  "0 < interval \<Longrightarrow> elapsed \<le> timeout \<Longrightarrow> condition elapsed = (fin, err) \<Longrightarrow>
   fin \<or> err \<noteq> None \<Longrightarrow>
   pollFrom interval timeout condition elapsed = err"
  by (subst pollFrom.simps) (auto split: option.splits bool.splits)

text \<open>Polls that stay pending inside the window are passed over one interval at a time.\<close>

lemma pollFrom_skip_pending:
  assumes "0 < interval"
    and "\<forall>j < n. elapsed + int j * interval \<le> timeout
            \<and> condition (elapsed + int j * interval) = (False, None)"
  shows "pollFrom interval timeout condition elapsed =
           pollFrom interval timeout condition (elapsed + int n * interval)"
  using assms(2)
proof (induction n arbitrary: elapsed)
  case 0
  then show ?case by simp
next
  case (Suc n)
  from Suc.prems have first: "elapsed \<le> timeout" "condition elapsed = (False, None)"
    by force+
  have "\<forall>j < n. (elapsed + interval) + int j * interval \<le> timeout
            \<and> condition ((elapsed + interval) + int j * interval) = (False, None)"
  proof (intro allI impI)
    fix j assume "j < n"
    then have "Suc j < Suc n" by simp
    with Suc.prems have "elapsed + int (Suc j) * interval \<le> timeout
        \<and> condition (elapsed + int (Suc j) * interval) = (False, None)"
      by blast
    then show "(elapsed + interval) + int j * interval \<le> timeout
        \<and> condition ((elapsed + interval) + int j * interval) = (False, None)"
      by (simp add: algebra_simps)
  qed
  from Suc.IH [OF this] have
    "pollFrom interval timeout condition (elapsed + interval) =
     pollFrom interval timeout condition (elapsed + interval + int n * interval)" .
  then show ?case
    using pollFrom_pending [of interval elapsed timeout condition] assms(1) first
    by (simp add: algebra_simps)
qed

lemma pollFrom_zero:
  "0 < interval \<Longrightarrow> 0 \<le> timeout \<Longrightarrow>
   pollFrom interval timeout condition 0 = PollImmediate interval timeout condition"
  by (subst pollFrom.simps)
    (simp add: PollImmediate_def split: prod.splits option.splits bool.splits)

text \<open>The first poll that is not pending, if it falls inside the window, is the result.\<close>

lemma PollImmediate_first_decides:
  assumes "0 < interval" and "int n * interval \<le> timeout"
    and "\<forall>j < n. condition (int j * interval) = (False, None)"
    and "condition (int n * interval) = (fin, err)"
    and "fin \<or> err \<noteq> None"
  shows "PollImmediate interval timeout condition = err"
proof -
  have "0 \<le> int n * interval"
    using assms(1) by simp
  with assms(2) have t: "0 \<le> timeout"
    by linarith
  have "\<forall>j < n. 0 + int j * interval \<le> timeout
            \<and> condition (0 + int j * interval) = (False, None)"
  proof (intro allI impI)
    fix j assume j: "j < n"
    then have "int j * interval \<le> int n * interval"
      using assms(1) by (simp add: mult_right_mono)
    with assms(2,3) j show "0 + int j * interval \<le> timeout
        \<and> condition (0 + int j * interval) = (False, None)"
      by simp
  qed
  from pollFrom_skip_pending [OF assms(1) this]
  have "pollFrom interval timeout condition 0 =
      pollFrom interval timeout condition (int n * interval)"
    by simp
  also have "\<dots> = err"
    using assms by (intro pollFrom_decided) auto
  finally show ?thesis
    using assms(1) t by (simp add: pollFrom_zero)
qed

text \<open>When every poll inside the window is pending, the wait ends with the timeout error.\<close>

lemma PollImmediate_all_pending:
  assumes "0 < interval" and "0 \<le> timeout"
    and "\<forall>j. int j * interval \<le> timeout \<longrightarrow> condition (int j * interval) = (False, None)"
  shows "PollImmediate interval timeout condition = Some ErrWaitTimeout"
proof -
  define n where "n = nat (timeout div interval) + 1"
  have d: "0 \<le> timeout div interval"
    using assms(1,2) by (simp add: pos_imp_zdiv_nonneg_iff)
  have parts: "timeout = interval * (timeout div interval) + timeout mod interval"
    by simp
  have n: "timeout < int n * interval"
  proof -
    have "timeout mod interval < interval"
      using assms(1) by simp
    with parts have "timeout < interval * (timeout div interval) + interval"
      by linarith
    also have "\<dots> = int n * interval"
      using d unfolding n_def by (simp add: algebra_simps)
    finally show ?thesis .
  qed
  have below: "int j * interval \<le> timeout" if "j < n" for j
  proof -
    from that d have "int j \<le> timeout div interval"
      unfolding n_def by linarith
    then have "int j * interval \<le> (timeout div interval) * interval"
      using assms(1) by (simp add: mult_right_mono)
    also have "\<dots> \<le> timeout"
    proof -
      have "0 \<le> timeout mod interval"
        using assms(1) by simp
      with parts have "interval * (timeout div interval) \<le> timeout"
        by linarith
      then show ?thesis
        by (simp add: mult.commute)
    qed
    finally show ?thesis .
  qed
  have "\<forall>j < n. 0 + int j * interval \<le> timeout
            \<and> condition (0 + int j * interval) = (False, None)"
    using below assms(3) by simp
  from pollFrom_skip_pending [OF assms(1) this]
  have "pollFrom interval timeout condition 0 =
      pollFrom interval timeout condition (int n * interval)"
    by simp
  also have "\<dots> = Some ErrWaitTimeout"
    using n by (rule pollFrom_after_timeout)
  finally show ?thesis
    using assms(1,2) by (simp add: pollFrom_zero)
qed

text \<open>The result depends on the condition function at the polling times only.\<close>

lemma pollFrom_cong_polled:
  assumes "0 < interval"
    and "\<forall>j. elapsed + int j * interval \<le> timeout \<longrightarrow>
           c (elapsed + int j * interval) = c' (elapsed + int j * interval)"
  shows "pollFrom interval timeout c elapsed = pollFrom interval timeout c' elapsed"
  using assms
proof (induction interval timeout c elapsed rule: pollFrom.induct)
  case (1 interval timeout condition elapsed)
  show ?case
  proof (cases "elapsed \<le> timeout")
    case False
    then show ?thesis
      by (simp add: pollFrom_after_timeout)
  next
    case True
    from "1.prems"(2) [rule_format, of 0] True have same: "condition elapsed = c' elapsed"
      by simp
    have later: "\<forall>j. elapsed + interval + int j * interval \<le> timeout \<longrightarrow>
        condition (elapsed + interval + int j * interval) =
        c' (elapsed + interval + int j * interval)"
    proof (intro allI impI)
      fix j assume "elapsed + interval + int j * interval \<le> timeout"
      then have "elapsed + int (Suc j) * interval \<le> timeout"
        by (simp add: algebra_simps)
      from "1.prems"(2) [rule_format, OF this]
      show "condition (elapsed + interval + int j * interval) =
          c' (elapsed + interval + int j * interval)"
        by (simp add: algebra_simps)
    qed
    show ?thesis
    proof (cases "condition elapsed")
      case (Pair fin err)
      show ?thesis
      proof (cases "fin \<or> err \<noteq> None")
        case True
        with Pair same "1.prems"(1) \<open>elapsed \<le> timeout\<close> show ?thesis
          by (simp add: pollFrom_decided [of interval elapsed timeout _ fin err])
      next
        case False
        with Pair have p: "condition elapsed = (False, None)"
          by simp
        have g: "0 < interval \<and> elapsed \<le> timeout"
          using "1.prems"(1) \<open>elapsed \<le> timeout\<close> by simp
        have "pollFrom interval timeout condition (elapsed + interval) =
            pollFrom interval timeout c' (elapsed + interval)"
          using "1.IH" [OF g p [symmetric] refl refl "1.prems"(1) later] .
        then show ?thesis
          using p same "1.prems"(1) \<open>elapsed \<le> timeout\<close>
          by (simp add: pollFrom_pending [of interval elapsed timeout])
      qed
    qed
  qed
qed

lemma PollImmediate_cong_polled:
  assumes "0 < interval" and "0 \<le> timeout"
    and "\<forall>j. int j * interval \<le> timeout \<longrightarrow> c (int j * interval) = c' (int j * interval)"
  shows "PollImmediate interval timeout c = PollImmediate interval timeout c'"
proof -
  have "pollFrom interval timeout c 0 = pollFrom interval timeout c' 0"
    using assms(1,3) by (intro pollFrom_cong_polled) simp_all
  then show ?thesis
    using assms(1,2) by (simp add: pollFrom_zero)
qed


section \<open>Properties of the readiness waiters\<close>

lemma scanConditions_v1beta1_find:
  "scanConditions_v1beta1 conds =
     (case find (\<lambda>c. v1beta1_Type c = v1beta1_Established
                       \<and> v1beta1_Status c = v1beta1_ConditionTrue
                     \<or> v1beta1_Type c = v1beta1_NamesAccepted
                       \<and> v1beta1_Status c = v1beta1_ConditionFalse) conds of
        None \<Rightarrow> (False, None)
      | Some c \<Rightarrow> if v1beta1_Type c = v1beta1_Established then (True, None)
                  else (False, Some (ErrNameConflict (v1beta1_Reason c))))"
  by (induction conds) (auto simp: v1beta1_Established_def v1beta1_NamesAccepted_def)

lemma scanConditions_v1_find:
  "scanConditions_v1 conds =
     (case find (\<lambda>c. v1_Type c = v1_Established \<and> v1_Status c = v1_ConditionTrue
                     \<or> v1_Type c = v1_NamesAccepted \<and> v1_Status c = v1_ConditionFalse)
             conds of
        None \<Rightarrow> (False, None)
      | Some c \<Rightarrow> if v1_Type c = v1_Established then (True, None)
                  else (False, Some (ErrNameConflict (v1_Reason c))))"
  by (induction conds) (auto simp: v1_Established_def v1_NamesAccepted_def)

lemma scanConditions_v1beta1_pending:
  "\<forall>c \<in> set conds.
     \<not> (v1beta1_Type c = v1beta1_Established \<and> v1beta1_Status c = v1beta1_ConditionTrue)
     \<and> \<not> (v1beta1_Type c = v1beta1_NamesAccepted \<and> v1beta1_Status c = v1beta1_ConditionFalse)
   \<Longrightarrow> scanConditions_v1beta1 conds = (False, None)"
  by (induction conds) auto

lemma scanConditions_v1_pending:
  "\<forall>c \<in> set conds.
     \<not> (v1_Type c = v1_Established \<and> v1_Status c = v1_ConditionTrue)
     \<and> \<not> (v1_Type c = v1_NamesAccepted \<and> v1_Status c = v1_ConditionFalse)
   \<Longrightarrow> scanConditions_v1 conds = (False, None)"
  by (induction conds) auto

lemma scanConditions_v1beta1_established:
  "v1beta1_Type c = v1beta1_Established \<Longrightarrow> v1beta1_Status c = v1beta1_ConditionTrue \<Longrightarrow>
   \<forall>p \<in> set pre.
     \<not> (v1beta1_Type p = v1beta1_NamesAccepted \<and> v1beta1_Status p = v1beta1_ConditionFalse) \<Longrightarrow>
   scanConditions_v1beta1 (pre @ c # post) = (True, None)"
  by (induction pre) auto

lemma scanConditions_v1_established:
  "v1_Type c = v1_Established \<Longrightarrow> v1_Status c = v1_ConditionTrue \<Longrightarrow>
   \<forall>p \<in> set pre. \<not> (v1_Type p = v1_NamesAccepted \<and> v1_Status p = v1_ConditionFalse) \<Longrightarrow>
   scanConditions_v1 (pre @ c # post) = (True, None)"
  by (induction pre) auto

lemma within_window: "int j * retryInterval \<le> crdTimeout \<longleftrightarrow> j \<le> 12"
  by (simp add: retryInterval_def crdTimeout_def Minute_def Second_def)

lemma retryInterval_pos: "0 < retryInterval"
  by (simp add: retryInterval_def Second_def)

lemma crdTimeout_nonneg: "0 \<le> crdTimeout"
  by (simp add: crdTimeout_def Minute_def Second_def)

lemma ValidateCRD_first_decides:
  assumes "n \<le> 12"
    and "\<forall>j < n. pollCRD_v1beta1 (client (int j * retryInterval) crdName) = (False, None)"
    and "pollCRD_v1beta1 (client (int n * retryInterval) crdName) = (fin, res)"
    and "fin \<or> res \<noteq> None"
  shows "ValidateCRD client crdName = res"
  unfolding ValidateCRD_def
  using assms
  by (intro PollImmediate_first_decides [of retryInterval n crdTimeout _ fin res])
    (simp_all add: retryInterval_pos within_window)

lemma ValidateCRDV1_first_decides:
  assumes "n \<le> 12"
    and "\<forall>j < n. pollCRD_v1 (client (int j * retryInterval) crdName) = (False, None)"
    and "pollCRD_v1 (client (int n * retryInterval) crdName) = (fin, res)"
    and "fin \<or> res \<noteq> None"
  shows "ValidateCRDV1 client crdName = res"
  unfolding ValidateCRDV1_def
  using assms
  by (intro PollImmediate_first_decides [of retryInterval n crdTimeout _ fin res])
    (simp_all add: retryInterval_pos within_window)

lemma ValidateCRD_all_pending:
  assumes "\<forall>j \<le> 12. pollCRD_v1beta1 (client (int j * retryInterval) crdName) = (False, None)"
  shows "ValidateCRD client crdName = Some ErrWaitTimeout"
  unfolding ValidateCRD_def
  using assms
  by (intro PollImmediate_all_pending)
    (simp_all add: retryInterval_pos crdTimeout_nonneg within_window)

lemma ValidateCRDV1_all_pending:
  assumes "\<forall>j \<le> 12. pollCRD_v1 (client (int j * retryInterval) crdName) = (False, None)"
  shows "ValidateCRDV1 client crdName = Some ErrWaitTimeout"
  unfolding ValidateCRDV1_def
  using assms
  by (intro PollImmediate_all_pending)
    (simp_all add: retryInterval_pos crdTimeout_nonneg within_window)

lemma ValidateCRD_cong_polled:
  assumes "\<forall>j \<le> 12. client (int j * retryInterval) crdName =
      client' (int j * retryInterval) crdName"
  shows "ValidateCRD client crdName = ValidateCRD client' crdName"
  unfolding ValidateCRD_def using assms
  by (intro PollImmediate_cong_polled)
    (simp_all add: retryInterval_pos crdTimeout_nonneg within_window)

lemma ValidateCRDV1_cong_polled:
  assumes "\<forall>j \<le> 12. client (int j * retryInterval) crdName =
      client' (int j * retryInterval) crdName"
  shows "ValidateCRDV1 client crdName = ValidateCRDV1 client' crdName"
  unfolding ValidateCRDV1_def using assms
  by (intro PollImmediate_cong_polled)
    (simp_all add: retryInterval_pos crdTimeout_nonneg within_window)

lemma appearing_polls:
  "pollCRD_v1beta1 (appearing_v1beta1 0 n) = (False, None)"
  "pollCRD_v1beta1 (appearing_v1beta1 (1 * retryInterval) n) = (False, None)"
  "pollCRD_v1beta1 (appearing_v1beta1 (2 * retryInterval) n) = (True, None)"
  "pollCRD_v1 (appearing_v1 0 n) = (False, None)"
  "pollCRD_v1 (appearing_v1 (1 * retryInterval) n) = (False, None)"
  "pollCRD_v1 (appearing_v1 (2 * retryInterval) n) = (True, None)"
  by (simp_all add: crd_clients crd_examples crd_consts pollCRD_v1beta1_def pollCRD_v1_def
      retryInterval_def Second_def)

text \<open>
  Claim C1, as amended. In each poll of either waiter: a fetch that reports not-found
  leaves the waiter pending, and any other fetch error is the result of the poll. When
  the fetch succeeds, the conditions are read in list order and the first one that is
  Established with status true or NamesAccepted with status false decides: success for
  the former, for the latter the name conflict error, whose message ends with the
  reason of that condition; without such a condition the waiter stays pending. For the
  waiter as a whole: polling goes on while the polls are pending, and the first poll
  inside the window that is not pending gives the result, success or the error.
\<close>

theorem crd_poll_transition:
  "(IsNotFound err \<longrightarrow>
      pollCRD_v1beta1 (Inl err) = (False, None) \<and> pollCRD_v1 (Inl err) = (False, None))
   \<and> (\<not> IsNotFound err \<longrightarrow>
      pollCRD_v1beta1 (Inl err) = (False, Some err) \<and> pollCRD_v1 (Inl err) = (False, Some err))
   \<and> pollCRD_v1beta1 (Inr conds) =
       (case find (\<lambda>c. v1beta1_Type c = v1beta1_Established
                         \<and> v1beta1_Status c = v1beta1_ConditionTrue
                       \<or> v1beta1_Type c = v1beta1_NamesAccepted
                         \<and> v1beta1_Status c = v1beta1_ConditionFalse) conds of
          None \<Rightarrow> (False, None)
        | Some c \<Rightarrow> if v1beta1_Type c = v1beta1_Established then (True, None)
                    else (False, Some (ErrNameConflict (v1beta1_Reason c))))
   \<and> pollCRD_v1 (Inr conds1) =
       (case find (\<lambda>c. v1_Type c = v1_Established \<and> v1_Status c = v1_ConditionTrue
                       \<or> v1_Type c = v1_NamesAccepted \<and> v1_Status c = v1_ConditionFalse)
               conds1 of
          None \<Rightarrow> (False, None)
        | Some c \<Rightarrow> if v1_Type c = v1_Established then (True, None)
                    else (False, Some (ErrNameConflict (v1_Reason c))))
   \<and> Error fmtMap (ErrNameConflict reason) = ''name conflict: '' @ reason
   \<and> (n \<le> 12
        \<and> (\<forall>j < n. pollCRD_v1beta1 (client (int j * retryInterval) crdName) = (False, None))
        \<and> pollCRD_v1beta1 (client (int n * retryInterval) crdName) = (fin, res)
        \<and> (fin \<or> res \<noteq> None)
      \<longrightarrow> ValidateCRD client crdName = res)
   \<and> (n \<le> 12
        \<and> (\<forall>j < n. pollCRD_v1 (client1 (int j * retryInterval) crdName) = (False, None))
        \<and> pollCRD_v1 (client1 (int n * retryInterval) crdName) = (fin, res)
        \<and> (fin \<or> res \<noteq> None)
      \<longrightarrow> ValidateCRDV1 client1 crdName = res)"
proof (intro conjI impI)
  show "pollCRD_v1beta1 (Inr conds) =
       (case find (\<lambda>c. v1beta1_Type c = v1beta1_Established
                         \<and> v1beta1_Status c = v1beta1_ConditionTrue
                       \<or> v1beta1_Type c = v1beta1_NamesAccepted
                         \<and> v1beta1_Status c = v1beta1_ConditionFalse) conds of
          None \<Rightarrow> (False, None)
        | Some c \<Rightarrow> if v1beta1_Type c = v1beta1_Established then (True, None)
                    else (False, Some (ErrNameConflict (v1beta1_Reason c))))"
    by (simp add: pollCRD_v1beta1_def scanConditions_v1beta1_find)
  show "pollCRD_v1 (Inr conds1) =
       (case find (\<lambda>c. v1_Type c = v1_Established \<and> v1_Status c = v1_ConditionTrue
                       \<or> v1_Type c = v1_NamesAccepted \<and> v1_Status c = v1_ConditionFalse)
               conds1 of
          None \<Rightarrow> (False, None)
        | Some c \<Rightarrow> if v1_Type c = v1_Established then (True, None)
                    else (False, Some (ErrNameConflict (v1_Reason c))))"
    by (simp add: pollCRD_v1_def scanConditions_v1_find)
  show "Error fmtMap (ErrNameConflict reason) = ''name conflict: '' @ reason"
    by simp
next
  assume "IsNotFound err"
  then show "pollCRD_v1beta1 (Inl err) = (False, None)"
    and "pollCRD_v1 (Inl err) = (False, None)"
    by (simp_all add: pollCRD_v1beta1_def pollCRD_v1_def)
next
  assume "\<not> IsNotFound err"
  then show "pollCRD_v1beta1 (Inl err) = (False, Some err)"
    and "pollCRD_v1 (Inl err) = (False, Some err)"
    by (simp_all add: pollCRD_v1beta1_def pollCRD_v1_def)
next
  assume "n \<le> 12
        \<and> (\<forall>j < n. pollCRD_v1beta1 (client (int j * retryInterval) crdName) = (False, None))
        \<and> pollCRD_v1beta1 (client (int n * retryInterval) crdName) = (fin, res)
        \<and> (fin \<or> res \<noteq> None)"
  then show "ValidateCRD client crdName = res"
    using ValidateCRD_first_decides [of n client crdName fin res] by blast
next
  assume "n \<le> 12
        \<and> (\<forall>j < n. pollCRD_v1 (client1 (int j * retryInterval) crdName) = (False, None))
        \<and> pollCRD_v1 (client1 (int n * retryInterval) crdName) = (fin, res)
        \<and> (fin \<or> res \<noteq> None)"
  then show "ValidateCRDV1 client1 crdName = res"
    using ValidateCRDV1_first_decides [of n client1 crdName fin res] by blast
qed

text \<open>
  The theorem at concrete answers: a not-found error, a refused connection, conditions
  that establish the definition, conditions with a name conflict, and the waiters on
  the cluster where the definition is established at the third poll.
\<close>

theorem crd_poll_transition_witness:
  "IsNotFound notFound
   \<and> pollCRD_v1beta1 (Inl notFound) = (False, None)
   \<and> pollCRD_v1 (Inl notFound) = (False, None)
   \<and> \<not> IsNotFound (OtherError ''connection refused'')
   \<and> pollCRD_v1beta1 (Inl (OtherError ''connection refused'')) =
       (False, Some (OtherError ''connection refused''))
   \<and> pollCRD_v1 (Inl (OtherError ''connection refused'')) =
       (False, Some (OtherError ''connection refused''))
   \<and> pollCRD_v1beta1 (Inr [namesAccepted_v1beta1, established_v1beta1]) = (True, None)
   \<and> pollCRD_v1 (Inr [installing_v1, conflict_v1]) =
       (False, Some (ErrNameConflict ''PluralConflict''))
   \<and> ValidateCRD appearing_v1beta1 ''foos.example.com'' = None
   \<and> ValidateCRDV1 appearing_v1 ''foos.example.com'' = None"
proof -
  have nf: "IsNotFound notFound"
    by (simp add: notFound_def StatusReasonNotFound_def)
  have other: "\<not> IsNotFound (OtherError ''connection refused'')"
    by simp
  have f: "find (\<lambda>c. v1beta1_Type c = v1beta1_Established
                         \<and> v1beta1_Status c = v1beta1_ConditionTrue
                       \<or> v1beta1_Type c = v1beta1_NamesAccepted
                         \<and> v1beta1_Status c = v1beta1_ConditionFalse)
      [namesAccepted_v1beta1, established_v1beta1] = Some established_v1beta1"
    by (simp add: crd_examples crd_consts)
  have f1: "find (\<lambda>c. v1_Type c = v1_Established \<and> v1_Status c = v1_ConditionTrue
                       \<or> v1_Type c = v1_NamesAccepted \<and> v1_Status c = v1_ConditionFalse)
      [installing_v1, conflict_v1] = Some conflict_v1"
    by (simp add: crd_examples crd_consts)
  have e: "v1beta1_Type established_v1beta1 = v1beta1_Established"
    and e1: "v1_Type conflict_v1 \<noteq> v1_Established"
    and r: "v1_Reason conflict_v1 = ''PluralConflict''"
    by (simp_all add: crd_examples crd_consts)
  have early: "\<forall>j < 2. pollCRD_v1beta1 (appearing_v1beta1 (int j * retryInterval)
        ''foos.example.com'') = (False, None)"
    "\<forall>j < 2. pollCRD_v1 (appearing_v1 (int j * retryInterval) ''foos.example.com'') =
        (False, None)"
    by (simp_all add: less_Suc_eq numeral_2_eq_2 appearing_polls [simplified])
  note a = crd_poll_transition [of notFound "[namesAccepted_v1beta1, established_v1beta1]"
      "[installing_v1, conflict_v1]" "\<lambda>m. ''''" "''''" 2 appearing_v1beta1
      "''foos.example.com''" True None appearing_v1]
  note b = crd_poll_transition [of "OtherError ''connection refused''" "[]" "[]"
      "\<lambda>m. ''''" "''''" 0 appearing_v1beta1 "''foos.example.com''" False None appearing_v1]
  from a b nf other f f1 e e1 r early appearing_polls(3,6) [of "''foos.example.com''"]
  show ?thesis
    by simp
qed

text \<open>
  The claim as first stated fails where a name conflict stands before an Established
  condition that is true: the poll fails although the fetch reports Established true.
  Where it stands after, the poll succeeds although the fetch reports the conflict.
\<close>

theorem crd_poll_transition_counterexample:
  "v1beta1_Type established_v1beta1 = v1beta1_Established
   \<and> v1beta1_Status established_v1beta1 = v1beta1_ConditionTrue
   \<and> pollCRD_v1beta1 (Inr [conflict_v1beta1, established_v1beta1]) =
       (False, Some (ErrNameConflict ''PluralConflict''))
   \<and> v1_Type established_v1 = v1_Established
   \<and> v1_Status established_v1 = v1_ConditionTrue
   \<and> pollCRD_v1 (Inr [conflict_v1, established_v1]) =
       (False, Some (ErrNameConflict ''PluralConflict''))
   \<and> v1beta1_Type conflict_v1beta1 = v1beta1_NamesAccepted
   \<and> v1beta1_Status conflict_v1beta1 = v1beta1_ConditionFalse
   \<and> pollCRD_v1beta1 (Inr [established_v1beta1, conflict_v1beta1]) = (True, None)"
  by (simp add: pollCRD_v1beta1_def pollCRD_v1_def crd_examples crd_consts)

lemma scanConditions_same_triples:
  "map triple_v1 conds1 = map triple_v1beta1 conds \<Longrightarrow>
   scanConditions_v1 conds1 = scanConditions_v1beta1 conds"
proof (induction conds arbitrary: conds1)
  case Nil
  then show ?case by simp
next
  case (Cons c rest)
  then obtain c1 rest1 where conds1: "conds1 = c1 # rest1"
    and c1: "triple_v1 c1 = triple_v1beta1 c"
    and rest1: "map triple_v1 rest1 = map triple_v1beta1 rest"
    by (cases conds1) auto
  from Cons.IH [OF rest1] c1 show ?case
    unfolding conds1 by (simp add: triple_v1_def triple_v1beta1_def crd_consts)
qed

lemma pollCRD_same_answer:
  "same_answer got1 got \<Longrightarrow> pollCRD_v1 got1 = pollCRD_v1beta1 got"
  by (cases got1; cases got)
    (simp_all add: pollCRD_v1_def pollCRD_v1beta1_def scanConditions_same_triples)

text \<open>
  Claim C6. The two waiters make the same transition in each poll: on conditions with
  the same sequence of type, status and reason the two condition functions return the
  same result, and so they do on the same fetch error; and when the two clients give
  answers that say the same at every time, \<open>ValidateCRDV1\<close> and \<open>ValidateCRD\<close> end with
  the same outcome (success, the same error, or the timeout).
\<close>

theorem waiters_agree:
  "(map triple_v1 conds1 = map triple_v1beta1 conds \<longrightarrow>
      pollCRD_v1 (Inr conds1) = pollCRD_v1beta1 (Inr conds))
   \<and> pollCRD_v1 (Inl err) = pollCRD_v1beta1 (Inl err)
   \<and> ((\<forall>t. same_answer (client1 t crdName) (client t crdName)) \<longrightarrow>
        ValidateCRDV1 client1 crdName = ValidateCRD client crdName)"
proof (intro conjI impI)
  assume "map triple_v1 conds1 = map triple_v1beta1 conds"
  then show "pollCRD_v1 (Inr conds1) = pollCRD_v1beta1 (Inr conds)"
    by (intro pollCRD_same_answer) simp
next
  show "pollCRD_v1 (Inl err) = pollCRD_v1beta1 (Inl err)"
    by (intro pollCRD_same_answer) simp
next
  assume "\<forall>t. same_answer (client1 t crdName) (client t crdName)"
  then have "(\<lambda>t. pollCRD_v1 (client1 t crdName)) =
      (\<lambda>t. pollCRD_v1beta1 (client t crdName))"
    by (intro ext pollCRD_same_answer) simp
  then show "ValidateCRDV1 client1 crdName = ValidateCRD client crdName"
    by (simp add: ValidateCRD_def ValidateCRDV1_def)
qed

theorem waiters_agree_witness:
  "map triple_v1 [conflict_v1, established_v1] =
     map triple_v1beta1 [conflict_v1beta1, established_v1beta1]
   \<and> pollCRD_v1 (Inr [conflict_v1, established_v1]) =
       (False, Some (ErrNameConflict ''PluralConflict''))
   \<and> pollCRD_v1beta1 (Inr [conflict_v1beta1, established_v1beta1]) =
       (False, Some (ErrNameConflict ''PluralConflict''))
   \<and> ValidateCRDV1 appearing_v1 ''foos.example.com'' = None
   \<and> ValidateCRD appearing_v1beta1 ''foos.example.com'' = None"
proof -
  have h1: "map triple_v1 [conflict_v1, established_v1] =
      map triple_v1beta1 [conflict_v1beta1, established_v1beta1]"
    by (simp add: triple_v1_def triple_v1beta1_def crd_examples)
  have h2: "\<forall>t. same_answer (appearing_v1 t ''foos.example.com'')
      (appearing_v1beta1 t ''foos.example.com'')"
    by (simp add: crd_clients crd_examples triple_v1_def triple_v1beta1_def)
  have p: "pollCRD_v1beta1 (Inr [conflict_v1beta1, established_v1beta1]) =
      (False, Some (ErrNameConflict ''PluralConflict''))"
    by (simp add: pollCRD_v1beta1_def crd_examples crd_consts)
  have v: "ValidateCRD appearing_v1beta1 ''foos.example.com'' = None"
    by (rule ValidateCRD_first_decides [of 2 _ _ True])
      (simp_all add: less_Suc_eq numeral_2_eq_2 appearing_polls [simplified])
  from waiters_agree [of "[conflict_v1, established_v1]"
      "[conflict_v1beta1, established_v1beta1]" undefined appearing_v1 "''foos.example.com''"
      appearing_v1beta1] h1 h2 p v
  show ?thesis
    by simp
qed

lemma pollCRD_v1beta1_pending:
  "(case got of
      Inl err \<Rightarrow> IsNotFound err
    | Inr conds \<Rightarrow>
        \<forall>c \<in> set conds.
          \<not> (v1beta1_Type c = v1beta1_Established \<and> v1beta1_Status c = v1beta1_ConditionTrue)
          \<and> \<not> (v1beta1_Type c = v1beta1_NamesAccepted
               \<and> v1beta1_Status c = v1beta1_ConditionFalse))
   \<Longrightarrow> pollCRD_v1beta1 got = (False, None)"
  by (cases got) (simp_all add: pollCRD_v1beta1_def scanConditions_v1beta1_pending)

lemma pollCRD_v1_pending:
  "(case got of
      Inl err \<Rightarrow> IsNotFound err
    | Inr conds \<Rightarrow>
        \<forall>c \<in> set conds.
          \<not> (v1_Type c = v1_Established \<and> v1_Status c = v1_ConditionTrue)
          \<and> \<not> (v1_Type c = v1_NamesAccepted \<and> v1_Status c = v1_ConditionFalse))
   \<Longrightarrow> pollCRD_v1 got = (False, None)"
  by (cases got) (simp_all add: pollCRD_v1_def scanConditions_v1_pending)

text \<open>
  Claim C7, as amended. Both waiters poll with \<open>retryInterval\<close>, five seconds, and
  \<open>crdTimeout\<close>, sixty seconds, counted in nanoseconds. The polls are made at the
  multiples of five seconds from zero to sixty, the first at once, and at no other time.
  Each of these thirteen polls is made and can decide: for every \<open>n\<close> up to twelve, when
  the polls before the one at \<open>n\<close> times five seconds are pending and that one is not,
  the waiter ends with the result of that poll, success or its error. The outcome
  depends on the answers of the cluster at these thirteen times only. If at each of
  these times the definition is not found, or its conditions hold neither an
  Established condition that is true nor a NamesAccepted condition that is false, the
  waiter ends with the timeout error. If the first fetch reports an Established
  condition that is true, and no NamesAccepted condition that is false stands before it
  in the list, the waiter succeeds with that one poll, whatever the cluster answers
  later.
\<close>

theorem crd_wait_bounded:
  "retryInterval = 5 * Second \<and> crdTimeout = 60 * Second \<and> Second = 1000000000
   \<and> (n \<le> 12
        \<and> (\<forall>j < n. pollCRD_v1beta1 (client (int j * 5000000000) crdName) = (False, None))
        \<and> pollCRD_v1beta1 (client (int n * 5000000000) crdName) = (fin, res)
        \<and> (fin \<or> res \<noteq> None)
      \<longrightarrow> ValidateCRD client crdName = res)
   \<and> (n \<le> 12
        \<and> (\<forall>j < n. pollCRD_v1 (client1 (int j * 5000000000) crdName) = (False, None))
        \<and> pollCRD_v1 (client1 (int n * 5000000000) crdName) = (fin, res)
        \<and> (fin \<or> res \<noteq> None)
      \<longrightarrow> ValidateCRDV1 client1 crdName = res)
   \<and> ((\<forall>j \<le> 12. case client (int j * 5000000000) crdName of
           Inl err \<Rightarrow> IsNotFound err
         | Inr conds \<Rightarrow>
             \<forall>c \<in> set conds.
               \<not> (v1beta1_Type c = v1beta1_Established
                  \<and> v1beta1_Status c = v1beta1_ConditionTrue)
               \<and> \<not> (v1beta1_Type c = v1beta1_NamesAccepted
                    \<and> v1beta1_Status c = v1beta1_ConditionFalse))
        \<longrightarrow> ValidateCRD client crdName = Some ErrWaitTimeout)
   \<and> ((\<forall>j \<le> 12. case client1 (int j * 5000000000) crdName of
           Inl err \<Rightarrow> IsNotFound err
         | Inr conds \<Rightarrow>
             \<forall>c \<in> set conds.
               \<not> (v1_Type c = v1_Established \<and> v1_Status c = v1_ConditionTrue)
               \<and> \<not> (v1_Type c = v1_NamesAccepted \<and> v1_Status c = v1_ConditionFalse))
        \<longrightarrow> ValidateCRDV1 client1 crdName = Some ErrWaitTimeout)
   \<and> ((\<forall>j \<le> 12. client (int j * 5000000000) crdName =
                    client' (int j * 5000000000) crdName)
        \<longrightarrow> ValidateCRD client crdName = ValidateCRD client' crdName)
   \<and> ((\<forall>j \<le> 12. client1 (int j * 5000000000) crdName =
                    client1' (int j * 5000000000) crdName)
        \<longrightarrow> ValidateCRDV1 client1 crdName = ValidateCRDV1 client1' crdName)
   \<and> (client 0 crdName = Inr (pre @ c # post)
        \<and> v1beta1_Type c = v1beta1_Established
        \<and> v1beta1_Status c = v1beta1_ConditionTrue
        \<and> (\<forall>p \<in> set pre. \<not> (v1beta1_Type p = v1beta1_NamesAccepted
                              \<and> v1beta1_Status p = v1beta1_ConditionFalse))
        \<longrightarrow> ValidateCRD client crdName = None)
   \<and> (client1 0 crdName = Inr (pre1 @ c1 # post1)
        \<and> v1_Type c1 = v1_Established
        \<and> v1_Status c1 = v1_ConditionTrue
        \<and> (\<forall>p \<in> set pre1. \<not> (v1_Type p = v1_NamesAccepted
                               \<and> v1_Status p = v1_ConditionFalse))
        \<longrightarrow> ValidateCRDV1 client1 crdName = None)"
proof (intro conjI impI)
  have r: "retryInterval = 5000000000"
    by (simp add: retryInterval_def Second_def)
  show "retryInterval = 5 * Second" and "crdTimeout = 60 * Second" and "Second = 1000000000"
    by (simp_all add: retryInterval_def crdTimeout_def Minute_def Second_def)
  {
    assume "n \<le> 12
        \<and> (\<forall>j < n. pollCRD_v1beta1 (client (int j * 5000000000) crdName) = (False, None))
        \<and> pollCRD_v1beta1 (client (int n * 5000000000) crdName) = (fin, res)
        \<and> (fin \<or> res \<noteq> None)"
    then show "ValidateCRD client crdName = res"
      using ValidateCRD_first_decides [of n client crdName fin res, unfolded r] by blast
  }
  {
    assume "n \<le> 12
        \<and> (\<forall>j < n. pollCRD_v1 (client1 (int j * 5000000000) crdName) = (False, None))
        \<and> pollCRD_v1 (client1 (int n * 5000000000) crdName) = (fin, res)
        \<and> (fin \<or> res \<noteq> None)"
    then show "ValidateCRDV1 client1 crdName = res"
      using ValidateCRDV1_first_decides [of n client1 crdName fin res, unfolded r] by blast
  }
  {
    assume "\<forall>j \<le> 12. case client (int j * 5000000000) crdName of
           Inl err \<Rightarrow> IsNotFound err
         | Inr conds \<Rightarrow>
             \<forall>c \<in> set conds.
               \<not> (v1beta1_Type c = v1beta1_Established
                  \<and> v1beta1_Status c = v1beta1_ConditionTrue)
               \<and> \<not> (v1beta1_Type c = v1beta1_NamesAccepted
                    \<and> v1beta1_Status c = v1beta1_ConditionFalse)"
    then have "\<forall>j \<le> 12. pollCRD_v1beta1 (client (int j * 5000000000) crdName) =
        (False, None)"
      using pollCRD_v1beta1_pending by blast
    then show "ValidateCRD client crdName = Some ErrWaitTimeout"
      by (intro ValidateCRD_all_pending) (simp add: r)
  }
  {
    assume "\<forall>j \<le> 12. case client1 (int j * 5000000000) crdName of
           Inl err \<Rightarrow> IsNotFound err
         | Inr conds \<Rightarrow>
             \<forall>c \<in> set conds.
               \<not> (v1_Type c = v1_Established \<and> v1_Status c = v1_ConditionTrue)
               \<and> \<not> (v1_Type c = v1_NamesAccepted \<and> v1_Status c = v1_ConditionFalse)"
    then have "\<forall>j \<le> 12. pollCRD_v1 (client1 (int j * 5000000000) crdName) = (False, None)"
      using pollCRD_v1_pending by blast
    then show "ValidateCRDV1 client1 crdName = Some ErrWaitTimeout"
      by (intro ValidateCRDV1_all_pending) (simp add: r)
  }
  {
    assume "\<forall>j \<le> 12. client (int j * 5000000000) crdName =
        client' (int j * 5000000000) crdName"
    then show "ValidateCRD client crdName = ValidateCRD client' crdName"
      by (intro ValidateCRD_cong_polled) (simp add: r)
  }
  {
    assume "\<forall>j \<le> 12. client1 (int j * 5000000000) crdName =
        client1' (int j * 5000000000) crdName"
    then show "ValidateCRDV1 client1 crdName = ValidateCRDV1 client1' crdName"
      by (intro ValidateCRDV1_cong_polled) (simp add: r)
  }
  {
    assume "client 0 crdName = Inr (pre @ c # post)
        \<and> v1beta1_Type c = v1beta1_Established
        \<and> v1beta1_Status c = v1beta1_ConditionTrue
        \<and> (\<forall>p \<in> set pre. \<not> (v1beta1_Type p = v1beta1_NamesAccepted
                              \<and> v1beta1_Status p = v1beta1_ConditionFalse))"
    then have "pollCRD_v1beta1 (client 0 crdName) = (True, None)"
      by (simp add: pollCRD_v1beta1_def scanConditions_v1beta1_established)
    then show "ValidateCRD client crdName = None"
      by (simp add: ValidateCRD_def PollImmediate_def)
  }
  {
    assume "client1 0 crdName = Inr (pre1 @ c1 # post1)
        \<and> v1_Type c1 = v1_Established
        \<and> v1_Status c1 = v1_ConditionTrue
        \<and> (\<forall>p \<in> set pre1. \<not> (v1_Type p = v1_NamesAccepted
                               \<and> v1_Status p = v1_ConditionFalse))"
    then have "pollCRD_v1 (client1 0 crdName) = (True, None)"
      by (simp add: pollCRD_v1_def scanConditions_v1_established)
    then show "ValidateCRDV1 client1 crdName = None"
      by (simp add: ValidateCRDV1_def PollImmediate_def)
  }
qed

text \<open>
  The theorem on concrete clusters. The definition never appears, or appears one second
  after the last poll, and the waiters time out. It is established at the sixtieth
  second, and the poll made then succeeds. A name conflict shows between the fifth and
  the tenth second only, and the poll at the fifth second fails with it. A cluster that
  differs from \<open>appearing\<close> between the polls only gives the same outcome. A definition
  that is established at the first fetch gives success.
\<close>

theorem crd_wait_bounded_witness:
  "ValidateCRD absent_v1beta1 ''foos.example.com'' = Some ErrWaitTimeout
   \<and> ValidateCRDV1 absent_v1 ''foos.example.com'' = Some ErrWaitTimeout
   \<and> ValidateCRD too_late_v1beta1 ''foos.example.com'' = Some ErrWaitTimeout
   \<and> ValidateCRDV1 too_late_v1 ''foos.example.com'' = Some ErrWaitTimeout
   \<and> ValidateCRD at_last_v1beta1 ''foos.example.com'' = None
   \<and> ValidateCRDV1 at_last_v1 ''foos.example.com'' = None
   \<and> ValidateCRD briefly_conflicting_v1beta1 ''foos.example.com'' =
       Some (ErrNameConflict ''PluralConflict'')
   \<and> ValidateCRDV1 briefly_conflicting_v1 ''foos.example.com'' =
       Some (ErrNameConflict ''PluralConflict'')
   \<and> between_polls_v1beta1 Second ''foos.example.com'' \<noteq>
       appearing_v1beta1 Second ''foos.example.com''
   \<and> ValidateCRD between_polls_v1beta1 ''foos.example.com'' =
       ValidateCRD appearing_v1beta1 ''foos.example.com''
   \<and> ValidateCRDV1 between_polls_v1 ''foos.example.com'' =
       ValidateCRDV1 appearing_v1 ''foos.example.com''
   \<and> ready_v1beta1 0 ''foos.example.com'' = Inr [namesAccepted_v1beta1, established_v1beta1]
   \<and> ValidateCRD ready_v1beta1 ''foos.example.com'' = None
   \<and> ready_v1 0 ''foos.example.com'' = Inr [namesAccepted_v1, established_v1]
   \<and> ValidateCRDV1 ready_v1 ''foos.example.com'' = None"
proof -
  let ?name = "''foos.example.com''"
  have p: "\<forall>j \<le> 12. case absent_v1beta1 (int j * 5000000000) ?name of
           Inl err \<Rightarrow> IsNotFound err
         | Inr conds \<Rightarrow>
             \<forall>c \<in> set conds.
               \<not> (v1beta1_Type c = v1beta1_Established
                  \<and> v1beta1_Status c = v1beta1_ConditionTrue)
               \<and> \<not> (v1beta1_Type c = v1beta1_NamesAccepted
                    \<and> v1beta1_Status c = v1beta1_ConditionFalse)"
    and p1: "\<forall>j \<le> 12. case absent_v1 (int j * 5000000000) ?name of
           Inl err \<Rightarrow> IsNotFound err
         | Inr conds \<Rightarrow>
             \<forall>c \<in> set conds.
               \<not> (v1_Type c = v1_Established \<and> v1_Status c = v1_ConditionTrue)
               \<and> \<not> (v1_Type c = v1_NamesAccepted \<and> v1_Status c = v1_ConditionFalse)"
    by (simp_all add: crd_clients crd_examples)
  have l: "\<forall>j \<le> 12. case too_late_v1beta1 (int j * 5000000000) ?name of
           Inl err \<Rightarrow> IsNotFound err
         | Inr conds \<Rightarrow>
             \<forall>c \<in> set conds.
               \<not> (v1beta1_Type c = v1beta1_Established
                  \<and> v1beta1_Status c = v1beta1_ConditionTrue)
               \<and> \<not> (v1beta1_Type c = v1beta1_NamesAccepted
                    \<and> v1beta1_Status c = v1beta1_ConditionFalse)"
    and l1: "\<forall>j \<le> 12. case too_late_v1 (int j * 5000000000) ?name of
           Inl err \<Rightarrow> IsNotFound err
         | Inr conds \<Rightarrow>
             \<forall>c \<in> set conds.
               \<not> (v1_Type c = v1_Established \<and> v1_Status c = v1_ConditionTrue)
               \<and> \<not> (v1_Type c = v1_NamesAccepted \<and> v1_Status c = v1_ConditionFalse)"
    by (simp_all add: crd_clients crd_examples Second_def)
  have m: "\<forall>j < 12. pollCRD_v1beta1 (at_last_v1beta1 (int j * 5000000000) ?name) =
        (False, None)"
      "pollCRD_v1beta1 (at_last_v1beta1 (int 12 * 5000000000) ?name) = (True, None)"
    and m1: "\<forall>j < 12. pollCRD_v1 (at_last_v1 (int j * 5000000000) ?name) = (False, None)"
      "pollCRD_v1 (at_last_v1 (int 12 * 5000000000) ?name) = (True, None)"
    by (simp_all add: crd_clients crd_examples crd_consts pollCRD_v1beta1_def pollCRD_v1_def
        Second_def)
  have k: "\<forall>j < 1. pollCRD_v1beta1 (briefly_conflicting_v1beta1 (int j * 5000000000) ?name) =
        (False, None)"
      "pollCRD_v1beta1 (briefly_conflicting_v1beta1 (int 1 * 5000000000) ?name) =
        (False, Some (ErrNameConflict ''PluralConflict''))"
    and k1: "\<forall>j < 1. pollCRD_v1 (briefly_conflicting_v1 (int j * 5000000000) ?name) =
        (False, None)"
      "pollCRD_v1 (briefly_conflicting_v1 (int 1 * 5000000000) ?name) =
        (False, Some (ErrNameConflict ''PluralConflict''))"
    by (simp_all add: crd_clients crd_examples crd_consts pollCRD_v1beta1_def pollCRD_v1_def
        Second_def)
  have q: "\<forall>j \<le> 12. between_polls_v1beta1 (int j * 5000000000) ?name =
      appearing_v1beta1 (int j * 5000000000) ?name"
    and q1: "\<forall>j \<le> 12. between_polls_v1 (int j * 5000000000) ?name =
      appearing_v1 (int j * 5000000000) ?name"
    by (simp_all add: between_polls_v1beta1_def between_polls_v1_def Second_def)
  have d: "between_polls_v1beta1 Second ?name \<noteq> appearing_v1beta1 Second ?name"
    by (simp add: crd_clients crd_examples Second_def)
  have r: "ready_v1beta1 0 ?name = Inr ([namesAccepted_v1beta1] @ established_v1beta1 # [])"
    and e: "v1beta1_Type established_v1beta1 = v1beta1_Established"
      "v1beta1_Status established_v1beta1 = v1beta1_ConditionTrue"
    and g: "\<forall>p \<in> set [namesAccepted_v1beta1].
      \<not> (v1beta1_Type p = v1beta1_NamesAccepted \<and> v1beta1_Status p = v1beta1_ConditionFalse)"
    by (simp_all add: crd_clients crd_examples crd_consts)
  have r1: "ready_v1 0 ?name = Inr ([namesAccepted_v1] @ established_v1 # [])"
    and e1: "v1_Type established_v1 = v1_Established"
      "v1_Status established_v1 = v1_ConditionTrue"
    and g1: "\<forall>p \<in> set [namesAccepted_v1].
      \<not> (v1_Type p = v1_NamesAccepted \<and> v1_Status p = v1_ConditionFalse)"
    by (simp_all add: crd_clients crd_examples crd_consts)
  note absent = crd_wait_bounded [where client = absent_v1beta1 and crdName = ?name
      and ?client1.0 = absent_v1]
  note late = crd_wait_bounded [where client = too_late_v1beta1 and crdName = ?name
      and ?client1.0 = too_late_v1]
  note last = crd_wait_bounded [where client = at_last_v1beta1 and crdName = ?name
      and ?client1.0 = at_last_v1 and n = 12 and fin = True and res = None]
  note brief = crd_wait_bounded [where client = briefly_conflicting_v1beta1
      and crdName = ?name and ?client1.0 = briefly_conflicting_v1 and n = 1 and fin = False
      and res = "Some (ErrNameConflict ''PluralConflict'')"]
  note between = crd_wait_bounded [where client = between_polls_v1beta1 and crdName = ?name
      and ?client1.0 = between_polls_v1 and client' = appearing_v1beta1
      and client1' = appearing_v1]
  note first = crd_wait_bounded [where client = ready_v1beta1 and crdName = ?name
      and ?client1.0 = ready_v1 and pre = "[namesAccepted_v1beta1]" and c = established_v1beta1
      and post = "[]" and ?pre1.0 = "[namesAccepted_v1]" and ?c1.0 = established_v1
      and ?post1.0 = "[]"]
  have "ValidateCRD absent_v1beta1 ?name = Some ErrWaitTimeout"
    and "ValidateCRDV1 absent_v1 ?name = Some ErrWaitTimeout"
    using absent p p1 by blast+
  moreover have "ValidateCRD too_late_v1beta1 ?name = Some ErrWaitTimeout"
    and "ValidateCRDV1 too_late_v1 ?name = Some ErrWaitTimeout"
    using late l l1 by blast+
  moreover have "ValidateCRD at_last_v1beta1 ?name = None"
    and "ValidateCRDV1 at_last_v1 ?name = None"
    using last m m1 by simp_all
  moreover have "ValidateCRD briefly_conflicting_v1beta1 ?name =
      Some (ErrNameConflict ''PluralConflict'')"
    and "ValidateCRDV1 briefly_conflicting_v1 ?name =
      Some (ErrNameConflict ''PluralConflict'')"
    using brief k k1 by simp_all
  moreover have "ValidateCRD between_polls_v1beta1 ?name = ValidateCRD appearing_v1beta1 ?name"
    and "ValidateCRDV1 between_polls_v1 ?name = ValidateCRDV1 appearing_v1 ?name"
    using between q q1 by blast+
  moreover have "ValidateCRD ready_v1beta1 ?name = None"
    and "ValidateCRDV1 ready_v1 ?name = None"
    using first r e g r1 e1 g1 by blast+
  ultimately show ?thesis
    using d r r1 by simp
qed

text \<open>
  The claim as first stated fails on a first fetch that reports an Established
  condition that is true after a name conflict: the waiter fails with the conflict.
\<close>

theorem crd_wait_bounded_counterexample:
  "conflicting_v1beta1 0 ''foos.example.com'' = Inr [conflict_v1beta1, established_v1beta1]
   \<and> v1beta1_Type established_v1beta1 = v1beta1_Established
   \<and> v1beta1_Status established_v1beta1 = v1beta1_ConditionTrue
   \<and> ValidateCRD conflicting_v1beta1 ''foos.example.com'' =
       Some (ErrNameConflict ''PluralConflict'')
   \<and> conflicting_v1 0 ''foos.example.com'' = Inr [conflict_v1, established_v1]
   \<and> v1_Type established_v1 = v1_Established
   \<and> v1_Status established_v1 = v1_ConditionTrue
   \<and> ValidateCRDV1 conflicting_v1 ''foos.example.com'' =
       Some (ErrNameConflict ''PluralConflict'')"
  by (simp add: ValidateCRD_def ValidateCRDV1_def PollImmediate_def pollCRD_v1beta1_def
      pollCRD_v1_def crd_clients crd_examples crd_consts)

section \<open>Properties of the registrar\<close>

text \<open>
  Claim C8. For every resource descriptor, \<open>CreateCRD\<close> hands to \<open>RegisterCRD\<close>, and
  returns its answer on, the object whose name is the plural, a dot and the group;
  whose versions are one version, named by the descriptor's version, served and stored,
  with a schema that preserves unknown fields; whose scope is cluster-wide exactly when
  the descriptor's scope is the cluster-wide value and namespaced for any other value;
  and whose names are the descriptor's name as singular, its plural, its kind and its
  short names.
\<close>

theorem CreateCRD_object:
  "CreateCRD RegisterCRD resource = RegisterCRD (newCRD resource)
   \<and> ObjectMeta_Name (newCRD resource) = cr_Plural resource @ ''.'' @ cr_Group resource
   \<and> spec_Versions (Spec (newCRD resource)) =
       [\<lparr>ver_Name = cr_Version resource, ver_Served = True, ver_Storage = True,
         ver_Schema = Some \<lparr>OpenAPIV3Schema = Some \<lparr>XPreserveUnknownFields = Some True\<rparr>\<rparr>\<rparr>]
   \<and> (spec_Scope (Spec (newCRD resource)) = ClusterScoped \<longleftrightarrow>
        cr_Scope resource = ClusterScoped)
   \<and> (cr_Scope resource \<noteq> ClusterScoped \<longrightarrow>
        spec_Scope (Spec (newCRD resource)) = NamespaceScoped)
   \<and> spec_Names (Spec (newCRD resource)) =
       \<lparr>names_Singular = cr_Name resource, names_Plural = cr_Plural resource,
        names_Kind = cr_Kind resource, names_ShortNames = cr_ShortNames resource\<rparr>"
proof -
  have "CreateCRD RegisterCRD resource = RegisterCRD (newCRD resource)"
    by (simp add: CreateCRD_def split: option.splits)
  moreover have "ClusterScoped \<noteq> NamespaceScoped"
    by (simp add: ClusterScoped_def NamespaceScoped_def)
  ultimately show ?thesis
    by (simp add: newCRD_def)
qed

text \<open>
  The theorem on a namespaced descriptor, on a cluster-wide one, and on a descriptor
  whose scope is misspelt; and a registration that accepts the expected name only.
\<close>

theorem CreateCRD_object_witness:
  "cr_Scope volumeSnapshotSchedule \<noteq> ClusterScoped
   \<and> ObjectMeta_Name (newCRD volumeSnapshotSchedule) =
       ''volumesnapshotschedules.stork.libopenstorage.org''
   \<and> spec_Scope (Spec (newCRD volumeSnapshotSchedule)) = ''Namespaced''
   \<and> cr_Scope clusterDomainsStatus = ClusterScoped
   \<and> spec_Scope (Spec (newCRD clusterDomainsStatus)) = ''Cluster''
   \<and> cr_Scope (volumeSnapshotSchedule\<lparr>cr_Scope := ''cluster''\<rparr>) \<noteq> ClusterScoped
   \<and> spec_Scope (Spec (newCRD (volumeSnapshotSchedule\<lparr>cr_Scope := ''cluster''\<rparr>))) =
       ''Namespaced''
   \<and> CreateCRD
        (\<lambda>crd. if ObjectMeta_Name crd = ''clusterdomainsstatuses.stork.libopenstorage.org''
               then None else Some (OtherError ''unexpected''))
        clusterDomainsStatus = None"
proof -
  have h1: "cr_Scope volumeSnapshotSchedule \<noteq> ClusterScoped"
    and h2: "cr_Scope clusterDomainsStatus = ClusterScoped"
    and h3: "cr_Scope (volumeSnapshotSchedule\<lparr>cr_Scope := ''cluster''\<rparr>) \<noteq> ClusterScoped"
    by (simp_all add: volumeSnapshotSchedule_def clusterDomainsStatus_def ClusterScoped_def)
  note a = CreateCRD_object [of undefined volumeSnapshotSchedule]
  note b = CreateCRD_object [of "\<lambda>crd. if ObjectMeta_Name crd =
      ''clusterdomainsstatuses.stork.libopenstorage.org''
      then None else Some (OtherError ''unexpected'')" clusterDomainsStatus]
  note c = CreateCRD_object [of undefined "volumeSnapshotSchedule\<lparr>cr_Scope := ''cluster''\<rparr>"]
  have "ObjectMeta_Name (newCRD volumeSnapshotSchedule) =
       ''volumesnapshotschedules.stork.libopenstorage.org''"
    using a by (simp add: volumeSnapshotSchedule_def)
  moreover have "spec_Scope (Spec (newCRD volumeSnapshotSchedule)) = ''Namespaced''"
    using a h1 by (simp add: NamespaceScoped_def)
  moreover have "spec_Scope (Spec (newCRD clusterDomainsStatus)) = ''Cluster''"
    using b h2 by (simp add: ClusterScoped_def)
  moreover have
    "spec_Scope (Spec (newCRD (volumeSnapshotSchedule\<lparr>cr_Scope := ''cluster''\<rparr>))) =
       ''Namespaced''"
    using c h3 by (simp add: NamespaceScoped_def)
  moreover have "ObjectMeta_Name (newCRD clusterDomainsStatus) =
       ''clusterdomainsstatuses.stork.libopenstorage.org''"
    using b by (simp add: clusterDomainsStatus_def)
  then have "CreateCRD
        (\<lambda>crd. if ObjectMeta_Name crd = ''clusterdomainsstatuses.stork.libopenstorage.org''
               then None else Some (OtherError ''unexpected''))
        clusterDomainsStatus = None"
    using b by simp
  ultimately show ?thesis
    using h1 h2 h3 by simp
qed


section \<open>Properties of the image registry lookup\<close>

lemma takeWhile_no_sep: "sep \<notin> set xs \<Longrightarrow> takeWhile (\<lambda>c. c \<noteq> sep) xs = xs"
  by (induction xs) auto

lemma Split_no_sep: "sep \<notin> set s \<Longrightarrow> Split s sep = [s]"
proof -
  assume "sep \<notin> set s"
  then have d: "dropWhile (\<lambda>c. c \<noteq> sep) s = []"
    by auto
  show ?thesis
    by (subst Split.simps) (simp only: d list.case)
qed

lemma Split_at_sep:
  "sep \<notin> set field \<Longrightarrow> Split (field @ sep # rest) sep = field # Split rest sep"
proof -
  assume a: "sep \<notin> set field"
  then have "dropWhile (\<lambda>c. c \<noteq> sep) (field @ sep # rest) = sep # rest"
    by (auto simp: dropWhile_append3)
  moreover from a have "takeWhile (\<lambda>c. c \<noteq> sep) (field @ sep # rest) = field"
    by (auto simp: takeWhile_tail)
  ultimately show ?thesis
    by (subst Split.simps) (simp only: list.case)
qed

lemma Split_cases:
  obtains (one) "sep \<notin> set s" "Split s sep = [s]"
  | (more) field rest where "s = field @ sep # rest" "sep \<notin> set field"
      "Split s sep = field # Split rest sep"
proof (cases "sep \<in> set s")
  case False
  with one Split_no_sep show thesis
    by blast
next
  case True
  let ?field = "takeWhile (\<lambda>c. c \<noteq> sep) s"
  let ?tail = "dropWhile (\<lambda>c. c \<noteq> sep) s"
  from True have "?tail \<noteq> []"
    by auto
  then obtain rest where t: "?tail = sep # rest"
    using hd_dropWhile [of "\<lambda>c. c \<noteq> sep" s] by (cases ?tail) auto
  have s: "s = ?field @ sep # rest"
    using takeWhile_dropWhile_id [of "\<lambda>c. c \<noteq> sep" s] t by simp
  have f: "sep \<notin> set ?field"
    by (auto dest: set_takeWhileD)
  from more [OF s f] Split_at_sep [OF f, of rest] s show thesis
    by simp
qed

text \<open>The number of fields is one more than the number of separators.\<close>

lemma length_Split: "length (Split s sep) = Suc (count_list s sep)"
proof (induction s sep rule: Split.induct)
  case (1 s sep)
  show ?case
  proof (cases rule: Split_cases [where s = s and sep = sep])
    case one
    then show ?thesis
      by (simp add: count_list_0_iff)
  next
    case (more field rest)
    have "dropWhile (\<lambda>c. c \<noteq> sep) s = sep # rest"
      using more(1,2) by (auto simp: dropWhile_append3)
    from "1.IH" [OF this] have "length (Split rest sep) = Suc (count_list rest sep)" .
    moreover have "count_list field sep = 0"
      using more(2) by (simp add: count_list_0_iff)
    ultimately show ?thesis
      using more(1,3) by simp
  qed
qed

text \<open>The first field is the text before the first separator.\<close>

lemma hd_Split: "Split s sep ! 0 = takeWhile (\<lambda>c. c \<noteq> sep) s"
proof (cases rule: Split_cases [where s = s and sep = sep])
  case one
  then show ?thesis
    by (simp add: takeWhile_no_sep)
next
  case (more field rest)
  then show ?thesis
    by (simp add: takeWhile_tail takeWhile_no_sep)
qed

lemma GetImageRegistryFromDeployment_returns:
  assumes "GetDeployment name namespace = Inr deploy"
    and "Containers_Image deploy = img # others"
    and "ImagePullSecrets_Name deploy \<noteq> Some []"
  shows "GetImageRegistryFromDeployment GetDeployment name namespace =
     Inr (if length (Split img CHR ''/'') = 3 then Split img CHR ''/'' ! 0 else '''',
          case ImagePullSecrets_Name deploy of None \<Rightarrow> '''' | Some secrets \<Rightarrow> hd secrets,
          None)"
  using assms
  by (simp add: GetImageRegistryFromDeployment_def Let_def split: option.splits list.splits)

text \<open>
  Claim C9, as amended. For every deployment that is fetched successfully, has at least
  one container, and whose list of image pull secrets is nil or not empty, the function
  returns without error: the registry is the first field of the first container's image
  split at the slashes (the text before the first slash) when there are exactly three
  fields, and the empty string when there are one or two; the pull secret is the first
  entry of the list of image pull secrets, and the empty string when that list is nil.
\<close>

theorem image_registry_and_secret:
  assumes "GetDeployment name namespace = Inr deploy"
    and "Containers_Image deploy = img # others"
    and "ImagePullSecrets_Name deploy \<noteq> Some []"
  shows "\<exists>registry secret.
      GetImageRegistryFromDeployment GetDeployment name namespace = Inr (registry, secret, None)
      \<and> (length (Split img CHR ''/'') = 3 \<longrightarrow>
            registry = Split img CHR ''/'' ! 0
            \<and> registry = takeWhile (\<lambda>c. c \<noteq> CHR ''/'') img)
      \<and> (length (Split img CHR ''/'') = 1 \<or> length (Split img CHR ''/'') = 2 \<longrightarrow>
            registry = '''')
      \<and> (\<forall>s rest. ImagePullSecrets_Name deploy = Some (s # rest) \<longrightarrow> secret = s)
      \<and> (ImagePullSecrets_Name deploy = None \<longrightarrow> secret = '''')
      \<and> length (Split img CHR ''/'') = Suc (count_list img CHR ''/'')"
  using GetImageRegistryFromDeployment_returns [of GetDeployment name namespace deploy img others]
    assms
  by (auto simp: hd_Split length_Split)

theorem image_registry_and_secret_witness:
  "deployments stork_deploy ''stork'' ''kube-system'' = Inr stork_deploy
   \<and> Containers_Image stork_deploy = [''registry.example.com/openstorage/stork:2.6.0'']
   \<and> ImagePullSecrets_Name stork_deploy = Some [''regcred'']
   \<and> length (Split ''registry.example.com/openstorage/stork:2.6.0'' CHR ''/'') = 3
   \<and> GetImageRegistryFromDeployment (deployments stork_deploy) ''stork'' ''kube-system'' =
       Inr (''registry.example.com'', ''regcred'', None)
   \<and> deployments hub_deploy ''stork'' ''kube-system'' = Inr hub_deploy
   \<and> Containers_Image hub_deploy = [''openstorage/stork:2.6.0'', ''busybox'']
   \<and> ImagePullSecrets_Name hub_deploy = None
   \<and> length (Split ''openstorage/stork:2.6.0'' CHR ''/'') = 2
   \<and> GetImageRegistryFromDeployment (deployments hub_deploy) ''stork'' ''kube-system'' =
       Inr ('''', '''', None)"
proof -
  have a1: "deployments stork_deploy ''stork'' ''kube-system'' = Inr stork_deploy"
    and a2: "Containers_Image stork_deploy =
        ''registry.example.com/openstorage/stork:2.6.0'' # []"
    and a3: "ImagePullSecrets_Name stork_deploy \<noteq> Some []"
    and a4: "ImagePullSecrets_Name stork_deploy = Some (''regcred'' # [])"
    by (simp_all add: deploy_examples)
  have b1: "deployments hub_deploy ''stork'' ''kube-system'' = Inr hub_deploy"
    and b2: "Containers_Image hub_deploy = ''openstorage/stork:2.6.0'' # [''busybox'']"
    and b3: "ImagePullSecrets_Name hub_deploy \<noteq> Some []"
    and b4: "ImagePullSecrets_Name hub_deploy = None"
    by (simp_all add: deploy_examples)
  have s3: "Split ''registry.example.com/openstorage/stork:2.6.0'' CHR ''/'' =
      [''registry.example.com'', ''openstorage'', ''stork:2.6.0'']"
    and s2: "Split ''openstorage/stork:2.6.0'' CHR ''/'' = [''openstorage'', ''stork:2.6.0'']"
    by (simp_all add: Split.simps)
  from image_registry_and_secret [of "deployments stork_deploy" "''stork''" "''kube-system''"
      stork_deploy "''registry.example.com/openstorage/stork:2.6.0''" "[]"] a1 a2 a3 a4 s3
  have a: "GetImageRegistryFromDeployment (deployments stork_deploy) ''stork'' ''kube-system'' =
      Inr (''registry.example.com'', ''regcred'', None)"
    by auto
  from image_registry_and_secret [of "deployments hub_deploy" "''stork''" "''kube-system''"
      hub_deploy "''openstorage/stork:2.6.0''" "[''busybox'']"] b1 b2 b3 b4 s2
  have b: "GetImageRegistryFromDeployment (deployments hub_deploy) ''stork'' ''kube-system'' =
      Inr ('''', '''', None)"
    by auto
  from a b a1 a2 a4 b1 b2 b4 s3 s2 show ?thesis
    by simp
qed

text \<open>
  The claim as first stated fails on a deployment whose list of image pull secrets is
  empty but not nil, and on a deployment without containers: the function returns
  nothing, it panics.
\<close>

theorem image_registry_and_secret_counterexample:
  "deployments no_secrets_deploy ''stork'' ''kube-system'' = Inr no_secrets_deploy
   \<and> ImagePullSecrets_Name no_secrets_deploy = Some []
   \<and> GetImageRegistryFromDeployment (deployments no_secrets_deploy) ''stork'' ''kube-system'' =
       Inl (IndexOutOfRange 0 0)
   \<and> deployments no_containers_deploy ''stork'' ''kube-system'' = Inr no_containers_deploy
   \<and> Containers_Image no_containers_deploy = []
   \<and> GetImageRegistryFromDeployment (deployments no_containers_deploy) ''stork''
        ''kube-system'' = Inl (IndexOutOfRange 0 0)"
  by (simp add: GetImageRegistryFromDeployment_def deploy_examples)

text \<open>
  Claim C10. The function reads index 0 of the container list, and of the list of image
  pull secrets when that list is not nil, without a bounds check: on a deployment
  fetched successfully it panics with an index out of range when the container list is
  empty, and when the list of image pull secrets is empty but not nil; and these are
  the only deployments on which it panics, so a caller that guarantees a container and
  a list of pull secrets that is nil or not empty is safe.
\<close>

theorem unchecked_indexing:
  assumes "GetDeployment name namespace = Inr deploy"
  shows "(Containers_Image deploy = [] \<longrightarrow>
            GetImageRegistryFromDeployment GetDeployment name namespace =
              Inl (IndexOutOfRange 0 0))
       \<and> (ImagePullSecrets_Name deploy = Some [] \<longrightarrow>
            GetImageRegistryFromDeployment GetDeployment name namespace =
              Inl (IndexOutOfRange 0 0))
       \<and> ((\<exists>p. GetImageRegistryFromDeployment GetDeployment name namespace = Inl p) \<longleftrightarrow>
            Containers_Image deploy = [] \<or> ImagePullSecrets_Name deploy = Some [])"
  using assms
  by (auto simp: GetImageRegistryFromDeployment_def Let_def split: option.splits list.splits)

theorem unchecked_indexing_witness:
  "deployments no_containers_deploy ''stork'' ''kube-system'' = Inr no_containers_deploy
   \<and> Containers_Image no_containers_deploy = []
   \<and> GetImageRegistryFromDeployment (deployments no_containers_deploy) ''stork''
        ''kube-system'' = Inl (IndexOutOfRange 0 0)
   \<and> deployments no_secrets_deploy ''stork'' ''kube-system'' = Inr no_secrets_deploy
   \<and> ImagePullSecrets_Name no_secrets_deploy = Some []
   \<and> GetImageRegistryFromDeployment (deployments no_secrets_deploy) ''stork'' ''kube-system'' =
       Inl (IndexOutOfRange 0 0)
   \<and> deployments stork_deploy ''stork'' ''kube-system'' = Inr stork_deploy
   \<and> Containers_Image stork_deploy \<noteq> []
   \<and> ImagePullSecrets_Name stork_deploy \<noteq> Some []
   \<and> (\<nexists>p. GetImageRegistryFromDeployment (deployments stork_deploy) ''stork''
          ''kube-system'' = Inl p)"
proof -
  have a: "deployments no_containers_deploy ''stork'' ''kube-system'' = Inr no_containers_deploy"
    and a': "Containers_Image no_containers_deploy = []"
    and b: "deployments no_secrets_deploy ''stork'' ''kube-system'' = Inr no_secrets_deploy"
    and b': "ImagePullSecrets_Name no_secrets_deploy = Some []"
    and c: "deployments stork_deploy ''stork'' ''kube-system'' = Inr stork_deploy"
    and c': "Containers_Image stork_deploy \<noteq> []" "ImagePullSecrets_Name stork_deploy \<noteq> Some []"
    by (simp_all add: deploy_examples)
  note x = unchecked_indexing [of "deployments no_containers_deploy" "''stork''"
      "''kube-system''" no_containers_deploy]
  note y = unchecked_indexing [of "deployments no_secrets_deploy" "''stork''"
      "''kube-system''" no_secrets_deploy]
  note z = unchecked_indexing [of "deployments stork_deploy" "''stork''"
      "''kube-system''" stork_deploy]
  from x y z a a' b b' c c' show ?thesis
    by simp
qed

end
